theory Spec2Isabelle
  imports Main "HOL-Library.Finite_Map"
begin

section \<open>Clean-up after an NSX-V to NSX-T migration: \<open>vcdNSXMigratorCleanup.py\<close>\<close>

text \<open>
  The module holds one class, \<open>VMwareCloudDirectorNSXMigratorCleanup\<close>, whose method
  \<open>run\<close> is a straight sequence of calls on two client objects
  (\<open>VCloudDirectorOperations\<close> and \<open>NSXTOperations\<close>), interleaved with subscripting of
  the configuration dictionaries and of the edge-gateway payload. The embedding keeps
  that shape: Python values are a datatype, every subscript can raise, every call on a
  client is recorded in the order it is issued, and an exception ends the run.
\<close>

subsection \<open>Python values\<close>

text \<open>
  The values \<open>run\<close> looks into come from YAML (the configuration) and from JSON (the
  edge-gateway payload): \<open>None\<close>, booleans, integers, strings, lists and dictionaries
  with string keys. A dictionary is a finite map, so that two dictionaries are equal
  whatever the order their keys were inserted in, as in Python.
\<close>

datatype pyval =
    PNone
  | PBool bool
  | PInt int
  | PStr string
  | PList "pyval list"
  | PDict "(string, pyval) fmap"

subsection \<open>Exceptions\<close>

text \<open>
  Modelled from the spec: the client classes are defined in
  \<open>src/core/vcd/vcdOperations.py\<close> and \<open>src/core/nsxt/nsxtOperations.py\<close>, which are not
  among the sources; the classes of the errors they raise (\<open>AuthError\<close>,
  \<open>NotFoundError\<close>, \<open>ValidationError\<close>, \<open>OperationError\<close>) are taken from the error
  taxonomy of the specification (authentication, missing entity, failed validation
  gate, failed remote mutation). \<open>KeyError\<close>, \<open>IndexError\<close> and \<open>TypeError\<close> are the
  exceptions Python itself raises on a subscript or on \<open>+\<close>.
\<close>

datatype exn_kind =
    AuthError | NotFoundError | ValidationError | OperationError
  | KeyError | IndexError | TypeError

datatype exn = Exn (kind: exn_kind) (message: string)

subsection \<open>Subscripts, truth values, equality, concatenation\<close>

datatype subscr = Key string | Idx nat

text \<open>The name of the type of a value, as Python prints it in the text of a \<open>TypeError\<close>.\<close>

fun type_name :: "pyval \<Rightarrow> string" where
  "type_name PNone = ''NoneType''"
| "type_name (PBool b) = ''bool''"
| "type_name (PInt n) = ''int''"
| "type_name (PStr s) = ''str''"
| "type_name (PList xs) = ''list''"
| "type_name (PDict m) = ''dict''"

definition quoted :: "string \<Rightarrow> string" where
  "quoted s = [CHR 0x27] @ s @ [CHR 0x27]"

text \<open>The decimal digits of a natural number: the argument of \<open>KeyError(0)\<close>.\<close>

fun decimal :: "nat \<Rightarrow> string" where
  "decimal n =
     (if n < 10 then [char_of (48 + n)] else decimal (n div 10) @ [char_of (48 + n mod 10)])"

declare decimal.simps [simp del]

text \<open>
  \<open>x[k]\<close> for a string key or a non-negative integer index. The message of a
  \<open>KeyError\<close> is the missing key.
\<close>

fun subscript :: "pyval \<Rightarrow> subscr \<Rightarrow> exn + pyval" where
  "subscript (PDict m) (Key k) =
     (case fmlookup m k of None \<Rightarrow> Inl (Exn KeyError k) | Some v \<Rightarrow> Inr v)"
| "subscript (PDict m) (Idx i) = Inl (Exn KeyError (decimal i))"
| "subscript (PList xs) (Idx i) =
     (if i < length xs then Inr (xs ! i) else Inl (Exn IndexError ''list index out of range''))"
| "subscript (PList xs) (Key k) =
     Inl (Exn TypeError ''list indices must be integers or slices, not str'')"
| "subscript (PStr s) (Idx i) =
     (if i < length s then Inr (PStr [s ! i]) else Inl (Exn IndexError ''string index out of range''))"
| "subscript (PStr s) (Key k) =
     Inl (Exn TypeError (''string indices must be integers, not '' @ quoted ''str''))"
| "subscript PNone k = Inl (Exn TypeError (quoted ''NoneType'' @ '' object is not subscriptable''))"
| "subscript (PBool b) k = Inl (Exn TypeError (quoted ''bool'' @ '' object is not subscriptable''))"
| "subscript (PInt n) k = Inl (Exn TypeError (quoted ''int'' @ '' object is not subscriptable''))"

text \<open>\<open>x[k1][k2]...\<close>: the subscripts are applied from left to right, the first failure is raised.\<close>

fun path :: "pyval \<Rightarrow> subscr list \<Rightarrow> exn + pyval" where
  "path x [] = Inr x"
| "path x (k # ks) = (case subscript x k of Inl e \<Rightarrow> Inl e | Inr y \<Rightarrow> path y ks)"

text \<open>The truth value of \<open>x\<close> in \<open>if x:\<close>.\<close>

fun truthy :: "pyval \<Rightarrow> bool" where
  "truthy PNone = False"
| "truthy (PBool b) = b"
| "truthy (PInt n) = (n \<noteq> 0)"
| "truthy (PStr s) = (s \<noteq> [])"
| "truthy (PList xs) = (xs \<noteq> [])"
| "truthy (PDict m) = (m \<noteq> fmempty)"

text \<open>
  \<open>a == b\<close>. Python compares structurally, except that a boolean is the integer 0 or 1
  (\<open>True == 1\<close>); \<open>unbool\<close> rewrites the booleans of a value into these integers.
\<close>

primrec unbool :: "pyval \<Rightarrow> pyval" where
  "unbool PNone = PNone"
| "unbool (PBool b) = PInt (if b then 1 else 0)"
| "unbool (PInt n) = PInt n"
| "unbool (PStr s) = PStr s"
| "unbool (PList xs) = PList (map unbool xs)"
| "unbool (PDict m) = PDict (fmmap unbool m)"

definition py_eq :: "pyval \<Rightarrow> pyval \<Rightarrow> bool" where
  "py_eq a b = (unbool a = unbool b)"

text \<open>\<open>x + '-t'\<close>: only a string can be extended by a string.\<close>

fun add_str :: "pyval \<Rightarrow> string \<Rightarrow> exn + pyval" where
  "add_str (PStr s) t = Inr (PStr (s @ t))"
| "add_str (PList xs) t =
     Inl (Exn TypeError (''can only concatenate list (not '' @ [CHR 0x22] @ ''str'' @ [CHR 0x22] @ '') to list''))"
| "add_str x t =
     Inl (Exn TypeError (''unsupported operand type(s) for +: '' @ quoted (type_name x) @
                         '' and '' @ quoted ''str''))"

subsection \<open>The calls on the two clients\<close>

text \<open>
  One constructor for each method of \<open>vcdObj\<close> and \<open>nsxtObj\<close> that \<open>run\<close> calls, with the
  arguments of the call.
\<close>

datatype call =
    VcdLogin
  | GetComputeManagers
  | GetOrgUrl pyval
  | GetProviderVDCId pyval
  | GetOrgVDCDetails pyval pyval string bool
  | ValidateOrgVDCNSXbacking pyval pyval bool
  | GetOrgVDCEdgeGateway pyval
  | ValidateTargetOrgVDCState pyval
  | GetOrgVDCNetworks pyval string bool
  | ValidateVappVMsMediaState pyval bool
  | MigrateCatalogItems pyval pyval pyval
  | ClearBridging pyval
  | DeleteOrgVDCNetworks pyval
  | DeleteNsxVBackedOrgVDCEdgeGateways pyval
  | DeleteOrgVDC pyval
  | RenameTargetOrgVDCNetworks pyval
  | RenameOrgVDC pyval pyval
  | UpdateSourceExternalNetwork pyval pyval
  | DeleteSession

text \<open>
  The bodies of the methods are outside the module. What a method answers to given
  arguments (a value, or the exception it raises) is therefore a parameter of \<open>run\<close>: a
  record with one field for each method. \<open>run\<close> calls every method that changes the
  remote systems at most once, and after all the methods that read from them.
\<close>

record vcdOperations =
  vcdLogin :: "exn + unit"
  getOrgUrl :: "pyval \<Rightarrow> exn + pyval"
  getProviderVDCId :: "pyval \<Rightarrow> exn + (pyval \<times> bool)"
  getOrgVDCDetails :: "pyval \<Rightarrow> pyval \<Rightarrow> string \<Rightarrow> bool \<Rightarrow> exn + pyval"
  validateOrgVDCNSXbacking :: "pyval \<Rightarrow> pyval \<Rightarrow> bool \<Rightarrow> exn + unit"
  getOrgVDCEdgeGateway :: "pyval \<Rightarrow> exn + pyval"
  validateTargetOrgVDCState :: "pyval \<Rightarrow> exn + unit"
  getOrgVDCNetworks :: "pyval \<Rightarrow> string \<Rightarrow> bool \<Rightarrow> exn + pyval"
  validateVappVMsMediaState :: "pyval \<Rightarrow> bool \<Rightarrow> exn + unit"
  migrateCatalogItems :: "pyval \<Rightarrow> pyval \<Rightarrow> pyval \<Rightarrow> exn + unit"
  deleteOrgVDCNetworks :: "pyval \<Rightarrow> exn + unit"
  deleteNsxVBackedOrgVDCEdgeGateways :: "pyval \<Rightarrow> exn + unit"
  deleteOrgVDC :: "pyval \<Rightarrow> exn + unit"
  renameTargetOrgVDCNetworks :: "pyval \<Rightarrow> exn + unit"
  renameOrgVDC :: "pyval \<Rightarrow> pyval \<Rightarrow> exn + unit"
  updateSourceExternalNetwork :: "pyval \<Rightarrow> pyval \<Rightarrow> exn + unit"
  deleteSession :: "exn + unit"

record nsxtOperations =
  getComputeManagers :: "exn + unit"
  clearBridging :: "pyval \<Rightarrow> exn + unit"

subsection \<open>Running a sequence of statements\<close>

text \<open>
  A piece of \<open>run\<close> evaluates to its outcome (the exception raised, or the value) and the
  calls it has issued, in order.
\<close>

type_synonym 'a act = "(exn + 'a) \<times> call list"

definition return_act :: "'a \<Rightarrow> 'a act" where
  "return_act x = (Inr x, [])"

definition raise_exn :: "exn \<Rightarrow> 'a act" where
  "raise_exn e = (Inl e, [])"

text \<open>An expression that calls no client.\<close>

definition local_act :: "exn + 'a \<Rightarrow> 'a act" where
  "local_act r = (r, [])"

text \<open>A call on a client: it is recorded, and its answer is the outcome.\<close>

definition call_act :: "call \<Rightarrow> exn + 'a \<Rightarrow> 'a act" where
  "call_act c r = (r, [c])"

text \<open>\<open>m\<close>, then the rest \<open>f\<close> with the value of \<open>m\<close>; an exception in \<open>m\<close> skips the rest.\<close>

definition bind_act :: "'a act \<Rightarrow> ('a \<Rightarrow> 'b act) \<Rightarrow> 'b act" where
  "bind_act m f =
     (case m of
        (Inl e, cs) \<Rightarrow> (Inl e, cs)
      | (Inr x, cs) \<Rightarrow> (case f x of (r, cs') \<Rightarrow> (r, cs @ cs')))"

text \<open>\<open>try: m except Exception as e: h(e)\<close>.\<close>

definition try_except :: "'a act \<Rightarrow> (exn \<Rightarrow> 'a act) \<Rightarrow> 'a act" where
  "try_except m h =
     (case m of
        (Inl e, cs) \<Rightarrow> (case h e of (r, cs') \<Rightarrow> (r, cs @ cs'))
      | (Inr x, cs) \<Rightarrow> (Inr x, cs))"

subsection \<open>The class and its method \<open>run\<close>\<close>

text \<open>
  Of the fields \<open>__init__\<close> sets, \<open>run\<close> reads the two dictionaries; the loggers only
  receive messages.
\<close>

record cleanup =
  vcdDetails :: pyval
  nsxtDict :: pyval

text \<open>
  The four subscripts that build the arguments of a client's constructor
  (\<open>d['ipAddress'], d['username'], d['password'], d['verify']\<close>), in that order.
\<close>

definition clientArguments :: "pyval \<Rightarrow> exn + (pyval \<times> pyval \<times> pyval \<times> pyval)" where
  "clientArguments d =
     (case subscript d (Key ''ipAddress'') of Inl e \<Rightarrow> Inl e | Inr ipAddress \<Rightarrow>
     (case subscript d (Key ''username'') of Inl e \<Rightarrow> Inl e | Inr username \<Rightarrow>
     (case subscript d (Key ''password'') of Inl e \<Rightarrow> Inl e | Inr password \<Rightarrow>
     (case subscript d (Key ''verify'') of Inl e \<Rightarrow> Inl e | Inr verify \<Rightarrow>
        Inr (ipAddress, username, password, verify)))))"

text \<open>
  Line 137, the list comprehension
  \<open>[uplink for uplink in X if uplink['uplinkName'] == sourceExternalNetworkName]\<close>.
  \<open>uplinksNamed\<close> is the comprehension over the elements of a list; \<open>comprehension\<close>
  adds what iterating over \<open>X\<close> does when \<open>X\<close> is not a list: a dictionary and a string
  yield their keys and their characters, which are strings and cannot be subscripted
  by \<open>'uplinkName'\<close>; the other values are not iterable.
\<close>

fun uplinksNamed :: "pyval list \<Rightarrow> pyval \<Rightarrow> exn + pyval list" where
  "uplinksNamed [] name = Inr []"
| "uplinksNamed (uplink # rest) name =
     (case subscript uplink (Key ''uplinkName'') of
        Inl e \<Rightarrow> Inl e
      | Inr n \<Rightarrow>
          (case uplinksNamed rest name of
             Inl e \<Rightarrow> Inl e
           | Inr found \<Rightarrow> Inr (if py_eq n name then uplink # found else found)))"

fun comprehension :: "pyval \<Rightarrow> pyval \<Rightarrow> exn + pyval list" where
  "comprehension (PList uplinks) name = uplinksNamed uplinks name"
| "comprehension (PDict m) name =
     (if m = fmempty then Inr []
      else Inl (Exn TypeError (''string indices must be integers, not '' @ quoted ''str'')))"
| "comprehension (PStr s) name =
     (if s = [] then Inr []
      else Inl (Exn TypeError (''string indices must be integers, not '' @ quoted ''str'')))"
| "comprehension x name = Inl (Exn TypeError (quoted (type_name x) @ '' object is not iterable''))"

text \<open>
  Lines 136 to 144: the uplinks of the first edge gateway that carry the name of the
  source external network; when there is one, the IP ranges of the first subnet of the
  first of them; when these are not empty, the update of the external network. The
  chain of subscripts is evaluated for the test of line 139 and again for the
  assignment of line 140.
\<close>

definition updateSourceExternalNetworkIpPools ::
    "vcdOperations \<Rightarrow> pyval \<Rightarrow> pyval \<Rightarrow> unit act" where
  "updateSourceExternalNetworkIpPools vcdObj edgeGatewayDetails sourceExternalNetworkName =
     bind_act (local_act (path edgeGatewayDetails [Key ''values'', Idx 0, Key ''edgeGatewayUplinks''])) (\<lambda>uplinks.
     bind_act (local_act (comprehension uplinks sourceExternalNetworkName)) (\<lambda>sourceExternalNetwork.
     case sourceExternalNetwork of
       [] \<Rightarrow> return_act ()
     | first # _ \<Rightarrow>
         bind_act (local_act (path first [Key ''subnets'', Key ''values'', Idx 0, Key ''ipRanges'', Key ''values''])) (\<lambda>test.
         if truthy test then
           bind_act (local_act (path first [Key ''subnets'', Key ''values'', Idx 0, Key ''ipRanges'', Key ''values''])) (\<lambda>ipRanges.
           call_act (UpdateSourceExternalNetwork sourceExternalNetworkName ipRanges)
                    (updateSourceExternalNetwork vcdObj sourceExternalNetworkName ipRanges))
         else return_act ())))"

text \<open>
  The body of the \<open>try\<close> of \<open>run\<close>, lines 43 to 149, statement by statement. The client
  objects built in lines 47 and 54 are the two records of answers; building them
  evaluates the subscripts of \<open>clientArguments\<close>. A logging statement is kept where
  formatting its message evaluates a subscript or a \<open>+\<close> for the first time (lines 70,
  85 and 89): the same expression, evaluated again in the next statement, has the same
  value.
\<close>

definition run_body :: "cleanup \<Rightarrow> vcdOperations \<Rightarrow> nsxtOperations \<Rightarrow> unit act" where
  "run_body self vcdObj nsxtObj =
     bind_act (local_act (subscript (vcdDetails self) (Key ''Common''))) (\<lambda>commonDict.
     bind_act (local_act (path (vcdDetails self) [Key ''Organization'', Key ''OrgName''])) (\<lambda>orgName.
     bind_act (local_act (path (vcdDetails self) [Key ''SourceOrgVDC'', Key ''OrgVDCName''])) (\<lambda>sourceOrgVDCName.
     bind_act (local_act (path (vcdDetails self) [Key ''NSXVProviderVDC'', Key ''ExternalNetwork''])) (\<lambda>sourceExternalNetworkName.
     bind_act (local_act (clientArguments commonDict)) (\<lambda>_.
     bind_act (local_act (subscript (nsxtDict self) (Key ''Common''))) (\<lambda>nsxtCommonDict.
     bind_act (local_act (clientArguments nsxtCommonDict)) (\<lambda>_.
     bind_act (call_act VcdLogin (vcdLogin vcdObj)) (\<lambda>_.
     bind_act (call_act GetComputeManagers (getComputeManagers nsxtObj)) (\<lambda>_.
     bind_act (call_act (GetOrgUrl orgName) (getOrgUrl vcdObj orgName)) (\<lambda>orgUrl.
     bind_act (local_act (path (vcdDetails self) [Key ''NSXVProviderVDC'', Key ''ProviderVDCName''])) (\<lambda>sourceProviderVDCName.
     bind_act (call_act (GetProviderVDCId sourceProviderVDCName)
                        (getProviderVDCId vcdObj sourceProviderVDCName)) (\<lambda>(sourceProviderVDCId, isNSXTbacked).
     bind_act (call_act (GetOrgVDCDetails orgUrl sourceOrgVDCName ''sourceOrgVDC'' False)
                        (getOrgVDCDetails vcdObj orgUrl sourceOrgVDCName ''sourceOrgVDC'' False)) (\<lambda>sourceOrgVDCId.
     bind_act (call_act (ValidateOrgVDCNSXbacking sourceOrgVDCId sourceProviderVDCId isNSXTbacked)
                        (validateOrgVDCNSXbacking vcdObj sourceOrgVDCId sourceProviderVDCId isNSXTbacked)) (\<lambda>_.
     bind_act (call_act (GetOrgVDCEdgeGateway sourceOrgVDCId)
                        (getOrgVDCEdgeGateway vcdObj sourceOrgVDCId)) (\<lambda>edgeGatewayDetails.
     bind_act (local_act (path (vcdDetails self) [Key ''NSXTProviderVDC'', Key ''ProviderVDCName''])) (\<lambda>targetProviderVDCName.
     bind_act (call_act (GetProviderVDCId targetProviderVDCName)
                        (getProviderVDCId vcdObj targetProviderVDCName)) (\<lambda>(targetProviderVDCId, isNSXTbacked).
     bind_act (local_act (add_str sourceOrgVDCName ''-t'')) (\<lambda>targetOrgVDCName.
     bind_act (call_act (GetOrgVDCDetails orgUrl targetOrgVDCName ''targetOrgVDC'' False)
                        (getOrgVDCDetails vcdObj orgUrl targetOrgVDCName ''targetOrgVDC'' False)) (\<lambda>targetOrgVDCId.
     bind_act (call_act (ValidateOrgVDCNSXbacking targetOrgVDCId targetProviderVDCId isNSXTbacked)
                        (validateOrgVDCNSXbacking vcdObj targetOrgVDCId targetProviderVDCId isNSXTbacked)) (\<lambda>_.
     bind_act (call_act (ValidateTargetOrgVDCState targetOrgVDCId)
                        (validateTargetOrgVDCState vcdObj targetOrgVDCId)) (\<lambda>_.
     bind_act (call_act (GetOrgVDCNetworks targetOrgVDCId ''targetOrgVDCNetworks'' False)
                        (getOrgVDCNetworks vcdObj targetOrgVDCId ''targetOrgVDCNetworks'' False)) (\<lambda>orgVDCNetworkList.
     bind_act (call_act (ValidateVappVMsMediaState targetOrgVDCId True)
                        (validateVappVMsMediaState vcdObj targetOrgVDCId True)) (\<lambda>_.
     bind_act (call_act (MigrateCatalogItems sourceOrgVDCId targetOrgVDCId orgUrl)
                        (migrateCatalogItems vcdObj sourceOrgVDCId targetOrgVDCId orgUrl)) (\<lambda>_.
     bind_act (call_act (ClearBridging orgVDCNetworkList)
                        (clearBridging nsxtObj orgVDCNetworkList)) (\<lambda>_.
     bind_act (call_act (DeleteOrgVDCNetworks sourceOrgVDCId)
                        (deleteOrgVDCNetworks vcdObj sourceOrgVDCId)) (\<lambda>_.
     bind_act (call_act (DeleteNsxVBackedOrgVDCEdgeGateways sourceOrgVDCId)
                        (deleteNsxVBackedOrgVDCEdgeGateways vcdObj sourceOrgVDCId)) (\<lambda>_.
     bind_act (call_act (DeleteOrgVDC sourceOrgVDCId)
                        (deleteOrgVDC vcdObj sourceOrgVDCId)) (\<lambda>_.
     bind_act (call_act (RenameTargetOrgVDCNetworks targetOrgVDCId)
                        (renameTargetOrgVDCNetworks vcdObj targetOrgVDCId)) (\<lambda>_.
     bind_act (call_act (RenameOrgVDC sourceOrgVDCName targetOrgVDCId)
                        (renameOrgVDC vcdObj sourceOrgVDCName targetOrgVDCId)) (\<lambda>_.
     bind_act (updateSourceExternalNetworkIpPools vcdObj edgeGatewayDetails sourceExternalNetworkName) (\<lambda>_.
     call_act DeleteSession (deleteSession vcdObj))))))))))))))))))))))))))))))))"

text \<open>\<open>run\<close>: the body, inside \<open>try: ... except Exception: raise\<close>.\<close>

definition run :: "cleanup \<Rightarrow> vcdOperations \<Rightarrow> nsxtOperations \<Rightarrow> unit act" where
  "run self vcdObj nsxtObj = try_except (run_body self vcdObj nsxtObj) (\<lambda>e. raise_exn e)"

subsection \<open>What the validation methods check\<close>

text \<open>
  Modelled from the spec: the state of the remote system that the three validation
  gates look at. It is read by methods of \<open>VCloudDirectorOperations\<close>
  (\<open>src/core/vcd/vcdOperations.py\<close>), which is not among the sources. The specification
  gives each container a backing technology (the old one or the new one), an
  enabled or disabled state, and virtual machines that may have media attached.
\<close>

record remoteFacts =
  containerBackedByNewTechnology :: "pyval \<Rightarrow> bool"
  containerEnabled :: "pyval \<Rightarrow> bool"
  containerVMsMediaAttached :: "pyval \<Rightarrow> bool list"

text \<open>
  Modelled from the spec: \<open>validateOrgVDCNSXbacking\<close> is missing from the sources. The
  specification: \<open>validateContainerBacking(containerId, poolId, isNewTechnologyBacked)
  -> () | fails ValidationError\<close>; it validates that the container's backing matches
  the backing technology of the pool.
\<close>

definition validateContainerBacking :: "remoteFacts \<Rightarrow> pyval \<Rightarrow> pyval \<Rightarrow> bool \<Rightarrow> exn + unit" where
  "validateContainerBacking facts containerId poolId isNewTechnologyBacked =
     (if containerBackedByNewTechnology facts containerId = isNewTechnologyBacked then Inr ()
      else Inl (Exn ValidationError ''backing technology does not match''))"

text \<open>
  Modelled from the spec: \<open>validateTargetOrgVDCState\<close> is missing from the sources. The
  specification: \<open>validateContainerEnabled(containerId) -> () | fails ValidationError\<close>;
  the target container must be enabled.
\<close>

definition validateContainerEnabled :: "remoteFacts \<Rightarrow> pyval \<Rightarrow> exn + unit" where
  "validateContainerEnabled facts containerId =
     (if containerEnabled facts containerId then Inr ()
      else Inl (Exn ValidationError ''container is disabled''))"

text \<open>
  Modelled from the spec: \<open>validateVappVMsMediaState\<close> is missing from the sources. The
  specification: \<open>validateNoMediaAttached(containerId, strict: bool) -> () | fails
  ValidationError\<close>; no virtual machine of the container may have media attached, and
  with \<open>strict\<close> the error is raised, not ignored.
\<close>

definition validateNoMediaAttached :: "remoteFacts \<Rightarrow> pyval \<Rightarrow> bool \<Rightarrow> exn + unit" where
  "validateNoMediaAttached facts containerId strict =
     (if strict \<and> True \<in> set (containerVMsMediaAttached facts containerId)
      then Inl (Exn ValidationError ''media attached'')
      else Inr ())"

subsection \<open>Kinds of calls, and the answer to a call\<close>

text \<open>
  The calls that change a remote system: relocation of the catalog items, removal of
  the bridging, the deletions, the renamings, the update of the IP pool, and the
  deletion of the session.
\<close>

fun is_mutation :: "call \<Rightarrow> bool" where
  "is_mutation (MigrateCatalogItems _ _ _) = True"
| "is_mutation (ClearBridging _) = True"
| "is_mutation (DeleteOrgVDCNetworks _) = True"
| "is_mutation (DeleteNsxVBackedOrgVDCEdgeGateways _) = True"
| "is_mutation (DeleteOrgVDC _) = True"
| "is_mutation (RenameTargetOrgVDCNetworks _) = True"
| "is_mutation (RenameOrgVDC _ _) = True"
| "is_mutation (UpdateSourceExternalNetwork _ _) = True"
| "is_mutation DeleteSession = True"
| "is_mutation _ = False"

fun is_deletion :: "call \<Rightarrow> bool" where
  "is_deletion (DeleteOrgVDCNetworks _) = True"
| "is_deletion (DeleteNsxVBackedOrgVDCEdgeGateways _) = True"
| "is_deletion (DeleteOrgVDC _) = True"
| "is_deletion _ = False"

fun is_unbridge_or_deletion :: "call \<Rightarrow> bool" where
  "is_unbridge_or_deletion (ClearBridging _) = True"
| "is_unbridge_or_deletion c = is_deletion c"

fun is_update :: "call \<Rightarrow> bool" where
  "is_update (UpdateSourceExternalNetwork _ _) = True"
| "is_update _ = False"

text \<open>The exception a method raises, if it raises one.\<close>

definition raised :: "exn + 'a \<Rightarrow> exn option" where
  "raised r = (case r of Inl e \<Rightarrow> Some e | Inr _ \<Rightarrow> None)"

text \<open>The exception with which the clients answer a call, if they raise one.\<close>

fun answer :: "vcdOperations \<Rightarrow> nsxtOperations \<Rightarrow> call \<Rightarrow> exn option" where
  "answer v n VcdLogin = raised (vcdLogin v)"
| "answer v n GetComputeManagers = raised (getComputeManagers n)"
| "answer v n (GetOrgUrl a) = raised (getOrgUrl v a)"
| "answer v n (GetProviderVDCId a) = raised (getProviderVDCId v a)"
| "answer v n (GetOrgVDCDetails a b c d) = raised (getOrgVDCDetails v a b c d)"
| "answer v n (ValidateOrgVDCNSXbacking a b c) = raised (validateOrgVDCNSXbacking v a b c)"
| "answer v n (GetOrgVDCEdgeGateway a) = raised (getOrgVDCEdgeGateway v a)"
| "answer v n (ValidateTargetOrgVDCState a) = raised (validateTargetOrgVDCState v a)"
| "answer v n (GetOrgVDCNetworks a b c) = raised (getOrgVDCNetworks v a b c)"
| "answer v n (ValidateVappVMsMediaState a b) = raised (validateVappVMsMediaState v a b)"
| "answer v n (MigrateCatalogItems a b c) = raised (migrateCatalogItems v a b c)"
| "answer v n (ClearBridging a) = raised (clearBridging n a)"
| "answer v n (DeleteOrgVDCNetworks a) = raised (deleteOrgVDCNetworks v a)"
| "answer v n (DeleteNsxVBackedOrgVDCEdgeGateways a) = raised (deleteNsxVBackedOrgVDCEdgeGateways v a)"
| "answer v n (DeleteOrgVDC a) = raised (deleteOrgVDC v a)"
| "answer v n (RenameTargetOrgVDCNetworks a) = raised (renameTargetOrgVDCNetworks v a)"
| "answer v n (RenameOrgVDC a b) = raised (renameOrgVDC v a b)"
| "answer v n (UpdateSourceExternalNetwork a b) = raised (updateSourceExternalNetwork v a b)"
| "answer v n DeleteSession = raised (deleteSession v)"

text \<open>The exceptions that Python raises on the subscripts and the \<open>+\<close> of \<open>run\<close> itself.\<close>

definition local_kinds :: "exn_kind set" where
  "local_kinds = {KeyError, IndexError, TypeError}"

text \<open>
  What it means for a piece of \<open>run\<close> to hand every exception on as it is: if it
  returns, every call it issued was answered without an exception; if it raises \<open>e\<close>,
  every call but the last was answered without an exception, and \<open>e\<close> is either the
  exception of the last call or, all calls having succeeded, an exception of a local
  expression.
\<close>

definition propagates :: "vcdOperations \<Rightarrow> nsxtOperations \<Rightarrow> 'a act \<Rightarrow> bool" where
  "propagates v n m =
     (case fst m of
        Inr x \<Rightarrow> (\<forall>c\<in>set (snd m). answer v n c = None)
      | Inl e \<Rightarrow>
          (\<forall>c\<in>set (butlast (snd m)). answer v n c = None) \<and>
          ((snd m \<noteq> [] \<and> answer v n (last (snd m)) = Some e) \<or>
           ((\<forall>c\<in>set (snd m). answer v n c = None) \<and> kind e \<in> local_kinds)))"

subsection \<open>The lookups in the configuration\<close>

text \<open>The outcome of an expression, its value dropped.\<close>

definition outcome :: "exn + 'a \<Rightarrow> exn + unit" where
  "outcome r = (case r of Inl e \<Rightarrow> Inl e | Inr _ \<Rightarrow> Inr ())"

text \<open>The first exception in a sequence of outcomes, if there is one.\<close>

fun first_raised :: "(exn + unit) list \<Rightarrow> exn option" where
  "first_raised [] = None"
| "first_raised (Inl e # rs) = Some e"
| "first_raised (Inr _ # rs) = first_raised rs"

text \<open>
  The subscripts and the \<open>+\<close> that \<open>run\<close> evaluates on its two configuration
  dictionaries, in the order in which it evaluates them: lines 43 to 46, the arguments
  of the constructor of line 47, line 53, the arguments of the constructor of line 54,
  and lines 70, 85 and 89.
\<close>

definition configuration_lookups :: "cleanup \<Rightarrow> (exn + unit) list" where
  "configuration_lookups self =
    [outcome (subscript (vcdDetails self) (Key ''Common'')),
     outcome (path (vcdDetails self) [Key ''Organization'', Key ''OrgName'']),
     outcome (path (vcdDetails self) [Key ''SourceOrgVDC'', Key ''OrgVDCName'']),
     outcome (path (vcdDetails self) [Key ''NSXVProviderVDC'', Key ''ExternalNetwork'']),
     outcome (case subscript (vcdDetails self) (Key ''Common'') of
                Inl e \<Rightarrow> Inl e | Inr commonDict \<Rightarrow> clientArguments commonDict),
     outcome (subscript (nsxtDict self) (Key ''Common'')),
     outcome (case subscript (nsxtDict self) (Key ''Common'') of
                Inl e \<Rightarrow> Inl e | Inr nsxtCommonDict \<Rightarrow> clientArguments nsxtCommonDict),
     outcome (path (vcdDetails self) [Key ''NSXVProviderVDC'', Key ''ProviderVDCName'']),
     outcome (path (vcdDetails self) [Key ''NSXTProviderVDC'', Key ''ProviderVDCName'']),
     outcome (case path (vcdDetails self) [Key ''SourceOrgVDC'', Key ''OrgVDCName''] of
                Inl e \<Rightarrow> Inl e | Inr sourceOrgVDCName \<Rightarrow> add_str sourceOrgVDCName ''-t'')]"

text \<open>
  The subscripts and the comprehension that lines 137 and 139 evaluate on the captured
  payload, in the order in which they are evaluated.
\<close>

definition payload_lookups :: "pyval \<Rightarrow> pyval \<Rightarrow> (exn + unit) list" where
  "payload_lookups edgeGatewayDetails sourceExternalNetworkName =
    [outcome (path edgeGatewayDetails [Key ''values'', Idx 0, Key ''edgeGatewayUplinks'']),
     outcome (case path edgeGatewayDetails [Key ''values'', Idx 0, Key ''edgeGatewayUplinks''] of
                Inl e \<Rightarrow> Inl e
              | Inr uplinks \<Rightarrow> comprehension uplinks sourceExternalNetworkName),
     (case path edgeGatewayDetails [Key ''values'', Idx 0, Key ''edgeGatewayUplinks''] of
        Inl e \<Rightarrow> Inl e
      | Inr uplinks \<Rightarrow>
          (case comprehension uplinks sourceExternalNetworkName of
             Inl e \<Rightarrow> Inl e
           | Inr [] \<Rightarrow> Inr ()
           | Inr (first # _) \<Rightarrow>
               outcome (path first [Key ''subnets'', Key ''values'', Idx 0,
                                    Key ''ipRanges'', Key ''values''])))]"

subsection \<open>A sample configuration\<close>

text \<open>
  An organization \<open>org\<close> with the source container \<open>vdc\<close> on the provider pool
  \<open>pvdc-v\<close> and the target container \<open>vdc-t\<close> on the provider pool \<open>pvdc-t\<close>; one edge
  gateway with one uplink to the external network \<open>ext\<close>.
\<close>

definition demo_common :: pyval where
  "demo_common = PDict (fmap_of_list
     [(''ipAddress'', PStr ''10.0.0.1''), (''username'', PStr ''admin''),
      (''password'', PStr ''secret''), (''verify'', PBool False)])"

definition demo_self :: cleanup where
  "demo_self = \<lparr>
     vcdDetails = PDict (fmap_of_list
       [(''Common'', demo_common),
        (''Organization'', PDict (fmap_of_list [(''OrgName'', PStr ''org'')])),
        (''SourceOrgVDC'', PDict (fmap_of_list [(''OrgVDCName'', PStr ''vdc'')])),
        (''NSXVProviderVDC'', PDict (fmap_of_list
           [(''ProviderVDCName'', PStr ''pvdc-v''), (''ExternalNetwork'', PStr ''ext'')])),
        (''NSXTProviderVDC'', PDict (fmap_of_list [(''ProviderVDCName'', PStr ''pvdc-t'')]))]),
     nsxtDict = PDict (fmap_of_list [(''Common'', demo_common)]) \<rparr>"

definition subnet_with :: "pyval list \<Rightarrow> pyval" where
  "subnet_with ranges =
     PDict (fmap_of_list [(''ipRanges'', PDict (fmap_of_list [(''values'', PList ranges)]))])"

definition uplink_with :: "string \<Rightarrow> pyval list \<Rightarrow> pyval" where
  "uplink_with name subnets =
     PDict (fmap_of_list
       [(''uplinkName'', PStr name),
        (''subnets'', PDict (fmap_of_list [(''values'', PList subnets)]))])"

definition gateway_with :: "pyval list \<Rightarrow> pyval" where
  "gateway_with uplinks = PDict (fmap_of_list [(''edgeGatewayUplinks'', PList uplinks)])"

definition payload_with :: "pyval list \<Rightarrow> pyval" where
  "payload_with gateways = PDict (fmap_of_list [(''values'', PList gateways)])"

definition demo_payload :: pyval where
  "demo_payload =
     payload_with [gateway_with [uplink_with ''ext'' [subnet_with [PStr ''10.1.1.2-10.1.1.9'']]]]"

definition demo_facts :: remoteFacts where
  "demo_facts = \<lparr>
     containerBackedByNewTechnology = (\<lambda>i. i = PStr ''tid''),
     containerEnabled = (\<lambda>i. True),
     containerVMsMediaAttached = (\<lambda>i. [False, False]) \<rparr>"

definition demo_vcd :: vcdOperations where
  "demo_vcd = \<lparr>
     vcdLogin = Inr (),
     getOrgUrl = (\<lambda>n. Inr (PStr ''url'')),
     getProviderVDCId =
       (\<lambda>n. if n = PStr ''pvdc-t'' then Inr (PStr ''pt'', True) else Inr (PStr ''pv'', False)),
     getOrgVDCDetails =
       (\<lambda>u n r s. if n = PStr ''vdc-t'' then Inr (PStr ''tid'') else Inr (PStr ''sid'')),
     validateOrgVDCNSXbacking = validateContainerBacking demo_facts,
     getOrgVDCEdgeGateway = (\<lambda>i. Inr demo_payload),
     validateTargetOrgVDCState = validateContainerEnabled demo_facts,
     getOrgVDCNetworks = (\<lambda>i l s. Inr (PList [PStr ''net1''])),
     validateVappVMsMediaState = validateNoMediaAttached demo_facts,
     migrateCatalogItems = (\<lambda>s t u. Inr ()),
     deleteOrgVDCNetworks = (\<lambda>i. Inr ()),
     deleteNsxVBackedOrgVDCEdgeGateways = (\<lambda>i. Inr ()),
     deleteOrgVDC = (\<lambda>i. Inr ()),
     renameTargetOrgVDCNetworks = (\<lambda>i. Inr ()),
     renameOrgVDC = (\<lambda>n i. Inr ()),
     updateSourceExternalNetwork = (\<lambda>n r. Inr ()),
     deleteSession = Inr () \<rparr>"

definition demo_nsxt :: nsxtOperations where
  "demo_nsxt = \<lparr> getComputeManagers = Inr (), clearBridging = (\<lambda>n. Inr ()) \<rparr>"

text \<open>The calls of the sample run up to and including the renaming of the target container.\<close>

definition demo_calls :: "call list" where
  "demo_calls =
    [VcdLogin, GetComputeManagers, GetOrgUrl (PStr ''org''), GetProviderVDCId (PStr ''pvdc-v''),
     GetOrgVDCDetails (PStr ''url'') (PStr ''vdc'') ''sourceOrgVDC'' False,
     ValidateOrgVDCNSXbacking (PStr ''sid'') (PStr ''pv'') False,
     GetOrgVDCEdgeGateway (PStr ''sid''),
     GetProviderVDCId (PStr ''pvdc-t''),
     GetOrgVDCDetails (PStr ''url'') (PStr ''vdc-t'') ''targetOrgVDC'' False,
     ValidateOrgVDCNSXbacking (PStr ''tid'') (PStr ''pt'') True,
     ValidateTargetOrgVDCState (PStr ''tid''),
     GetOrgVDCNetworks (PStr ''tid'') ''targetOrgVDCNetworks'' False,
     ValidateVappVMsMediaState (PStr ''tid'') True,
     MigrateCatalogItems (PStr ''sid'') (PStr ''tid'') (PStr ''url''),
     ClearBridging (PList [PStr ''net1'']),
     DeleteOrgVDCNetworks (PStr ''sid''),
     DeleteNsxVBackedOrgVDCEdgeGateways (PStr ''sid''),
     DeleteOrgVDC (PStr ''sid''),
     RenameTargetOrgVDCNetworks (PStr ''tid''),
     RenameOrgVDC (PStr ''vdc'') (PStr ''tid'')]"

text \<open>Variations of the sample: a disabled target container, and media attached to one of its machines.\<close>

definition disabled_facts :: remoteFacts where
  "disabled_facts = demo_facts\<lparr> containerEnabled := (\<lambda>i. False) \<rparr>"

definition disabled_vcd :: vcdOperations where
  "disabled_vcd = demo_vcd\<lparr> validateTargetOrgVDCState := validateContainerEnabled disabled_facts \<rparr>"

definition media_facts :: remoteFacts where
  "media_facts = demo_facts\<lparr> containerVMsMediaAttached := (\<lambda>i. [False, True]) \<rparr>"

definition media_vcd :: vcdOperations where
  "media_vcd = demo_vcd\<lparr> validateVappVMsMediaState := validateNoMediaAttached media_facts \<rparr>"

text \<open>
  The source provider pool reports the new technology, while the source container is
  backed by the old one.
\<close>

definition mismatch_vcd :: vcdOperations where
  "mismatch_vcd = demo_vcd\<lparr> getProviderVDCId := (\<lambda>n. Inr (PStr ''pt'', True)) \<rparr>"

text \<open>The platform refuses the logout.\<close>

definition logout_vcd :: vcdOperations where
  "logout_vcd = demo_vcd\<lparr> deleteSession := Inl (Exn OperationError ''logout failed'') \<rparr>"

text \<open>An edge-gateway payload without any gateway.\<close>

definition no_gateway_vcd :: vcdOperations where
  "no_gateway_vcd = demo_vcd\<lparr> getOrgVDCEdgeGateway := (\<lambda>i. Inr (payload_with [])) \<rparr>"

text \<open>A payload whose only gateway has the uplink \<open>ext\<close>, without any subnet.\<close>

definition no_subnet_payload :: pyval where
  "no_subnet_payload = payload_with [gateway_with [uplink_with ''ext'' []]]"

definition no_subnet_vcd :: vcdOperations where
  "no_subnet_vcd = demo_vcd\<lparr> getOrgVDCEdgeGateway := (\<lambda>i. Inr no_subnet_payload) \<rparr>"

text \<open>
  A payload with two gateways. The first has three uplinks: one to another network,
  and two to \<open>ext\<close>, the first of them with two subnets. The second gateway has an
  uplink to \<open>ext\<close> as well. Every subnet has IP ranges of its own.
\<close>

definition rich_payload :: pyval where
  "rich_payload =
     payload_with
       [gateway_with [uplink_with ''other'' [subnet_with [PStr ''10.3.3.2-10.3.3.9'']],
                      uplink_with ''ext'' [subnet_with [PStr ''10.1.1.2-10.1.1.9''],
                                           subnet_with [PStr ''10.4.4.2-10.4.4.9'']],
                      uplink_with ''ext'' [subnet_with [PStr ''10.5.5.2-10.5.5.9'']]],
        gateway_with [uplink_with ''ext'' [subnet_with [PStr ''10.2.2.2-10.2.2.9'']]]]"

definition rich_vcd :: vcdOperations where
  "rich_vcd = demo_vcd\<lparr> getOrgVDCEdgeGateway := (\<lambda>i. Inr rich_payload) \<rparr>"

text \<open>
  A payload whose gateway has the uplink \<open>ext\<close>, with IP ranges, and a second uplink
  that has no name.
\<close>

definition unnamed_uplink_payload :: pyval where
  "unnamed_uplink_payload =
     payload_with
       [gateway_with [uplink_with ''ext'' [subnet_with [PStr ''10.1.1.2-10.1.1.9'']],
                      PDict (fmap_of_list [(''subnets'', PDict (fmap_of_list [(''values'', PList [])]))])]]"

definition unnamed_uplink_vcd :: vcdOperations where
  "unnamed_uplink_vcd = demo_vcd\<lparr> getOrgVDCEdgeGateway := (\<lambda>i. Inr unnamed_uplink_payload) \<rparr>"

text \<open>
  A payload with two gateways: the only uplink to the external network \<open>ext\<close> is on the
  second one, and its subnet has IP ranges.
\<close>

definition second_gateway_payload :: pyval where
  "second_gateway_payload =
     payload_with
       [gateway_with [uplink_with ''other'' [subnet_with [PStr ''10.3.3.2-10.3.3.9'']]],
        gateway_with [uplink_with ''ext'' [subnet_with [PStr ''10.2.2.2-10.2.2.9'']]]]"

definition second_gateway_vcd :: vcdOperations where
  "second_gateway_vcd = demo_vcd\<lparr> getOrgVDCEdgeGateway := (\<lambda>i. Inr second_gateway_payload) \<rparr>"

text \<open>
  A payload whose first gateway has the uplink \<open>ext\<close> with an empty first subnet and a
  second subnet with ranges, and whose second gateway has an uplink \<open>ext\<close> with ranges.
\<close>

definition later_payload :: pyval where
  "later_payload =
     payload_with
       [gateway_with [uplink_with ''other'' [subnet_with [PStr ''10.3.3.2-10.3.3.9'']],
                      uplink_with ''ext'' [subnet_with [], subnet_with [PStr ''10.1.1.2-10.1.1.9'']]],
        gateway_with [uplink_with ''ext'' [subnet_with [PStr ''10.2.2.2-10.2.2.9'']]]]"

text \<open>The platform refuses to delete the source container.\<close>

definition failing_delete_vcd :: vcdOperations where
  "failing_delete_vcd =
     demo_vcd\<lparr> deleteOrgVDC := (\<lambda>i. Inl (Exn OperationError ''container in use'')) \<rparr>"

subsection \<open>Evaluating the sample, and splitting a sequence\<close>

lemmas demo_defs =
  demo_self_def demo_common_def demo_vcd_def demo_nsxt_def demo_payload_def demo_facts_def
  demo_calls_def subnet_with_def uplink_with_def gateway_with_def payload_with_def
  disabled_facts_def disabled_vcd_def media_facts_def media_vcd_def mismatch_vcd_def
  logout_vcd_def no_gateway_vcd_def second_gateway_payload_def second_gateway_vcd_def
  later_payload_def failing_delete_vcd_def
  no_subnet_payload_def no_subnet_vcd_def rich_payload_def rich_vcd_def
  unnamed_uplink_payload_def unnamed_uplink_vcd_def

lemmas run_defs =
  run_def run_body_def updateSourceExternalNetworkIpPools_def clientArguments_def
  bind_act_def call_act_def local_act_def return_act_def raise_exn_def try_except_def
  py_eq_def validateContainerBacking_def validateContainerEnabled_def
  validateNoMediaAttached_def

lemma demo_run:
  "run demo_self demo_vcd demo_nsxt =
     (Inr (), demo_calls @
        [UpdateSourceExternalNetwork (PStr ''ext'') (PList [PStr ''10.1.1.2-10.1.1.9'']),
         DeleteSession])"
  by (simp add: run_defs demo_defs)

lemma run_is_body: "run self v n = run_body self v n"
  by (simp add: run_def try_except_def raise_exn_def split: prod.splits sum.splits)

lemma in_calls_bind:
  "c \<in> set (snd (bind_act m f)) \<longleftrightarrow>
     c \<in> set (snd m) \<or> (\<exists>x. fst m = Inr x \<and> c \<in> set (snd (f x)))"
  by (cases m) (auto simp: bind_act_def split: sum.splits prod.splits)

lemma fst_bind_Inr:
  "fst (bind_act m f) = Inr y \<longleftrightarrow> (\<exists>x. fst m = Inr x \<and> fst (f x) = Inr y)"
  by (cases m) (auto simp: bind_act_def split: sum.splits prod.splits)

lemma fst_bind:
  "fst (bind_act m f) = (case fst m of Inl e \<Rightarrow> Inl e | Inr x \<Rightarrow> fst (f x))"
  by (cases m) (simp add: bind_act_def split: sum.splits prod.splits)

lemma snd_bind:
  "snd (bind_act m f) = (case fst m of Inl e \<Rightarrow> snd m | Inr x \<Rightarrow> snd m @ snd (f x))"
  by (cases m) (simp add: bind_act_def split: sum.splits prod.splits)

lemma local_act_simps [simp]: "snd (local_act r) = []" "fst (local_act r) = r"
  by (simp_all add: local_act_def)

lemma call_act_simps [simp]: "snd (call_act c r) = [c]" "fst (call_act c r) = r"
  by (simp_all add: call_act_def)

lemma bind_local_Inl [simp]: "bind_act (local_act (Inl e)) f = (Inl e, [])"
  by (simp add: bind_act_def local_act_def)

lemma bind_local_Inr [simp]: "bind_act (local_act (Inr x)) f = f x"
  by (simp add: bind_act_def local_act_def split: prod.splits)

lemma bind_call_Inl [simp]: "bind_act (call_act c (Inl e)) f = (Inl e, [c])"
  by (simp add: bind_act_def call_act_def)

lemma bind_call_Inr [simp]: "bind_act (call_act c (Inr x)) f = (fst (f x), c # snd (f x))"
  by (simp add: bind_act_def call_act_def split: prod.splits)

text \<open>Lines 136 to 144 as one case distinction.\<close>

lemma update_unfold:
  "updateSourceExternalNetworkIpPools v p n =
     (case path p [Key ''values'', Idx 0, Key ''edgeGatewayUplinks''] of
        Inl e \<Rightarrow> (Inl e, [])
      | Inr uplinks \<Rightarrow>
          (case comprehension uplinks n of
             Inl e \<Rightarrow> (Inl e, [])
           | Inr [] \<Rightarrow> (Inr (), [])
           | Inr (first # rest) \<Rightarrow>
               (case path first [Key ''subnets'', Key ''values'', Idx 0, Key ''ipRanges'', Key ''values''] of
                  Inl e \<Rightarrow> (Inl e, [])
                | Inr ipRanges \<Rightarrow>
                    if truthy ipRanges
                    then (updateSourceExternalNetwork v n ipRanges, [UpdateSourceExternalNetwork n ipRanges])
                    else (Inr (), []))))"
  unfolding updateSourceExternalNetworkIpPools_def
  by (simp add: return_act_def call_act_def del: path.simps split: sum.splits list.splits)

lemma update_calls:
  "c \<in> set (snd (updateSourceExternalNetworkIpPools v p n)) \<Longrightarrow> is_update c"
  unfolding update_unfold
  by (auto simp del: path.simps split: sum.splits list.splits if_splits)

lemma not_update_calls [simp]:
  "\<not> is_update c \<Longrightarrow> c \<notin> set (snd (updateSourceExternalNetworkIpPools v p n))"
  using update_calls by blast

lemma filter_update_calls:
  "\<forall>c. P c \<longrightarrow> \<not> is_update c \<Longrightarrow>
     filter P (snd (updateSourceExternalNetworkIpPools v p n)) = []"
  by (auto simp: filter_empty_conv dest: update_calls)

lemma unbridge_not_update: "\<forall>c. is_unbridge_or_deletion c \<longrightarrow> \<not> is_update c"
  by (rule allI, case_tac c) simp_all

lemma target_resolution_name:
  assumes name: "path (vcdDetails self) [Key ''SourceOrgVDC'', Key ''OrgVDCName''] = Inr (PStr N)"
    and reach: "GetOrgVDCDetails u nm ''targetOrgVDC'' sv \<in> set (snd (run self vcdObj nsxtObj))"
  shows "nm = PStr (N @ ''-t'')"
  using reach name unfolding run_is_body run_body_def
  apply (simp add: in_calls_bind del: path.simps)
  apply (elim exE conjE disjE)
  apply (simp_all del: path.simps split: prod.splits)
  done

lemma rename_name:
  assumes name: "path (vcdDetails self) [Key ''SourceOrgVDC'', Key ''OrgVDCName''] = Inr (PStr N)"
    and reach: "RenameOrgVDC nm tid \<in> set (snd (run self vcdObj nsxtObj))"
  shows "nm = PStr N \<and>
         (\<exists>u. getOrgVDCDetails vcdObj u (PStr (N @ ''-t'')) ''targetOrgVDC'' False = Inr tid \<and>
              GetOrgVDCDetails u (PStr (N @ ''-t'')) ''targetOrgVDC'' False
                \<in> set (snd (run self vcdObj nsxtObj)))"
  using reach name unfolding run_is_body run_body_def
  apply (simp add: in_calls_bind del: path.simps)
  apply (elim exE conjE)
  apply (simp del: path.simps split: prod.splits)
  done

lemma success_renames:
  assumes ok: "fst (run self vcdObj nsxtObj) = Inr ()"
  shows "\<exists>nm tid. RenameOrgVDC nm tid \<in> set (snd (run self vcdObj nsxtObj))"
  using ok unfolding run_is_body run_body_def
  apply (simp add: fst_bind_Inr del: path.simps)
  apply (elim exE conjE)
  apply (simp add: snd_bind del: path.simps split: prod.splits)
  done

lemma path_append:
  "path x (ks @ ks') = (case path x ks of Inl e \<Rightarrow> Inl e | Inr y \<Rightarrow> path y ks')"
  by (induction ks arbitrary: x) (simp_all split: sum.splits)

lemma step_index_error:
  assumes "subscript payload (Key ''values'') = Inr (PList []) \<or>
           (\<exists>uplinks u us.
              path payload [Key ''values'', Idx 0, Key ''edgeGatewayUplinks''] = Inr uplinks \<and>
              comprehension uplinks name = Inr (u # us) \<and>
              path u [Key ''subnets'', Key ''values''] = Inr (PList []))"
  shows "updateSourceExternalNetworkIpPools v payload name =
           (Inl (Exn IndexError ''list index out of range''), [])"
  using assms
proof (elim disjE exE conjE)
  assume "subscript payload (Key ''values'') = Inr (PList [])"
  then show ?thesis unfolding update_unfold by simp
next
  fix uplinks u us
  assume p1: "path payload [Key ''values'', Idx 0, Key ''edgeGatewayUplinks''] = Inr uplinks"
    and m: "comprehension uplinks name = Inr (u # us)"
    and s: "path u [Key ''subnets'', Key ''values''] = Inr (PList [])"
  have "path u ([Key ''subnets'', Key ''values''] @ [Idx 0, Key ''ipRanges'', Key ''values''])
          = Inl (Exn IndexError ''list index out of range'')"
    unfolding path_append using s by simp
  then have p2: "path u [Key ''subnets'', Key ''values'', Idx 0, Key ''ipRanges'', Key ''values'']
          = Inl (Exn IndexError ''list index out of range'')"
    by simp
  show ?thesis
    unfolding update_unfold by (simp only: p1 p2 m sum.case list.case)
qed

lemma filter_update_calls_id:
  "filter is_update (snd (updateSourceExternalNetworkIpPools v p n)) =
     snd (updateSourceExternalNetworkIpPools v p n)"
  by (auto simp: filter_id_conv dest: update_calls)

lemma run_tail:
  assumes name: "path (vcdDetails self) [Key ''NSXVProviderVDC'', Key ''ExternalNetwork''] = Inr name"
    and captured: "GetOrgVDCEdgeGateway sid \<in> set (snd (run self vcdObj nsxtObj))"
                  "getOrgVDCEdgeGateway vcdObj sid = Inr payload"
    and reach: "RenameOrgVDC nm tid \<in> set (snd (run self vcdObj nsxtObj))"
               "renameOrgVDC vcdObj nm tid = Inr ()"
  shows "fst (run self vcdObj nsxtObj) =
           (case fst (updateSourceExternalNetworkIpPools vcdObj payload name) of
              Inl e \<Rightarrow> Inl e | Inr _ \<Rightarrow> deleteSession vcdObj) \<and>
         filter is_update (snd (run self vcdObj nsxtObj)) =
           snd (updateSourceExternalNetworkIpPools vcdObj payload name)"
  using captured reach name unfolding run_is_body run_body_def
  apply (simp add: in_calls_bind del: path.simps)
  apply (elim exE conjE)
  apply (simp add: fst_bind snd_bind filter_update_calls_id del: path.simps split: prod.splits)
  apply (simp add: filter_update_calls_id del: path.simps split: sum.splits)
  done

lemma update_none:
  assumes "path payload [Key ''values'', Idx 0, Key ''edgeGatewayUplinks''] = Inr uplinks"
    and "comprehension uplinks name = Inr []"
  shows "updateSourceExternalNetworkIpPools v payload name = (Inr (), [])"
  unfolding update_unfold by (simp only: assms sum.case list.case)

lemma update_first:
  assumes "path payload [Key ''values'', Idx 0, Key ''edgeGatewayUplinks''] = Inr uplinks"
    and "comprehension uplinks name = Inr (u # us)"
    and "path u [Key ''subnets'', Key ''values'', Idx 0, Key ''ipRanges'', Key ''values''] = Inr ranges"
  shows "updateSourceExternalNetworkIpPools v payload name =
           (if truthy ranges
            then (updateSourceExternalNetwork v name ranges, [UpdateSourceExternalNetwork name ranges])
            else (Inr (), []))"
  unfolding update_unfold by (simp only: assms sum.case list.case)

lemma subscript_kind: "subscript x k = Inl e \<Longrightarrow> kind e \<in> local_kinds"
  by (induction x k rule: subscript.induct)
     (auto simp: local_kinds_def split: option.splits if_splits)

lemma path_kind: "path x ks = Inl e \<Longrightarrow> kind e \<in> local_kinds"
  by (induction ks arbitrary: x) (auto split: sum.splits dest: subscript_kind)

lemma clientArguments_kind: "clientArguments d = Inl e \<Longrightarrow> kind e \<in> local_kinds"
  unfolding clientArguments_def by (auto split: sum.splits dest: subscript_kind)

lemma add_str_kind: "add_str x t = Inl e \<Longrightarrow> kind e \<in> local_kinds"
  by (cases x) (auto simp: local_kinds_def)

lemma uplinksNamed_kind: "uplinksNamed us name = Inl e \<Longrightarrow> kind e \<in> local_kinds"
  by (induction us arbitrary: e) (auto split: sum.splits dest: subscript_kind)

lemma comprehension_kind: "comprehension x name = Inl e \<Longrightarrow> kind e \<in> local_kinds"
  by (cases x) (auto simp: local_kinds_def split: if_splits dest: uplinksNamed_kind)

lemma propagates_local:
  "(\<And>e. r = Inl e \<Longrightarrow> kind e \<in> local_kinds) \<Longrightarrow> propagates v n (local_act r)"
  by (cases r) (simp_all add: propagates_def)

lemma propagates_subscript: "propagates v n (local_act (subscript x k))"
  by (rule propagates_local) (rule subscript_kind)

lemma propagates_path: "propagates v n (local_act (path x ks))"
  by (rule propagates_local) (rule path_kind)

lemma propagates_clientArguments: "propagates v n (local_act (clientArguments d))"
  by (rule propagates_local) (rule clientArguments_kind)

lemma propagates_add_str: "propagates v n (local_act (add_str x t))"
  by (rule propagates_local) (rule add_str_kind)

lemma propagates_call:
  "answer v n c = raised r \<Longrightarrow> propagates v n (call_act c r)"
  by (cases r) (simp_all add: propagates_def raised_def)

lemma propagates_case_prod:
  "(\<And>a b. propagates v n (f a b)) \<Longrightarrow> propagates v n (case x of (a, b) \<Rightarrow> f a b)"
  by (cases x) simp

lemma propagates_bind:
  assumes m: "propagates v n m"
    and f: "\<And>x. fst m = Inr x \<Longrightarrow> propagates v n (f x)"
  shows "propagates v n (bind_act m f)"
proof (cases "fst m")
  case (Inl e)
  with m show ?thesis by (simp add: propagates_def fst_bind snd_bind)
next
  case (Inr x)
  with m have all: "\<forall>c\<in>set (snd m). answer v n c = None"
    by (simp add: propagates_def)
  from f [OF Inr] all Inr show ?thesis
    by (cases "fst (f x)")
       (auto simp: propagates_def fst_bind snd_bind butlast_append dest: in_set_butlastD)
qed

lemma propagates_update:
  "propagates v n (updateSourceExternalNetworkIpPools v p name)"
  unfolding update_unfold
  by (auto simp: propagates_def raised_def simp del: path.simps
           split: sum.splits list.splits dest: path_kind comprehension_kind)

lemma propagates_run_body: "propagates v n (run_body self v n)"
  unfolding run_body_def
  apply (intro propagates_bind propagates_case_prod propagates_subscript propagates_path
               propagates_clientArguments propagates_add_str propagates_update propagates_call)
  apply simp_all
  done

lemma last_if_not_butlast: "c \<in> set cs \<Longrightarrow> c \<notin> set (butlast cs) \<Longrightarrow> c = last cs"
  by (induction cs) (auto split: if_splits)

subsection \<open>What a call in the log, a failure and a success imply\<close>

lemma fst_bind_Inl:
  "fst (bind_act m f) = Inl e \<longleftrightarrow> fst m = Inl e \<or> (\<exists>x. fst m = Inr x \<and> fst (f x) = Inl e)"
  by (cases m) (auto simp: bind_act_def split: sum.splits prod.splits)


lemma update_is_mutation: "is_update c \<Longrightarrow> is_mutation c"
  by (cases c) simp_all


lemma success_logs_out:
  assumes "fst (run self vcdObj nsxtObj) = Inr ()"
  shows "DeleteSession \<in> set (snd (run self vcdObj nsxtObj))"
  using assms unfolding run_is_body run_body_def
  apply (simp add: fst_bind_Inr del: path.simps)
  apply (elim exE conjE)
  apply (simp add: snd_bind del: path.simps split: prod.splits)
  done

lemma fails_without_logout:
  assumes "DeleteSession \<notin> set (snd (run self vcdObj nsxtObj))"
  shows "\<exists>e. fst (run self vcdObj nsxtObj) = Inl e"
proof (cases "fst (run self vcdObj nsxtObj)")
  case (Inl e) then show ?thesis by blast
next
  case (Inr u)
  then have "fst (run self vcdObj nsxtObj) = Inr ()" by simp
  from success_logs_out [OF this] assms show ?thesis by simp
qed




lemma update_failure:
  "fst (updateSourceExternalNetworkIpPools v p n) = Inl e \<Longrightarrow>
     (updateSourceExternalNetworkIpPools v p n = (Inl e, []) \<and>
      first_raised (payload_lookups p n) = Some e) \<or>
     (\<exists>r. updateSourceExternalNetworkIpPools v p n = (Inl e, [UpdateSourceExternalNetwork n r]) \<and>
          updateSourceExternalNetwork v n r = Inl e)"
  unfolding update_unfold payload_lookups_def
  by (auto simp: outcome_def simp del: path.simps split: sum.splits list.splits if_splits)

lemma update_success_lookups:
  "fst (updateSourceExternalNetworkIpPools v p n) = Inr u \<Longrightarrow>
     first_raised (payload_lookups p n) = None"
  unfolding update_unfold payload_lookups_def
  by (auto simp: outcome_def simp del: path.simps split: sum.splits list.splits if_splits)

lemma update_success_quiet:
  "fst (updateSourceExternalNetworkIpPools v p n) = Inr u \<Longrightarrow>
     c \<in> set (snd (updateSourceExternalNetworkIpPools v p n)) \<Longrightarrow> answer v nn c = None"
  unfolding update_unfold
  by (auto simp: raised_def simp del: path.simps split: sum.splits list.splits if_splits)

lemma failure_cases:
  assumes "fst (run self v n) = Inl e"
  shows "(snd (run self v n) \<noteq> [] \<and> answer v n (last (snd (run self v n))) = Some e) \<or>
         (first_raised (configuration_lookups self) = Some e \<and>
          (\<forall>c\<in>set (snd (run self v n)). answer v n c = None) \<and>
          filter is_mutation (snd (run self v n)) = []) \<or>
         (first_raised (configuration_lookups self) = None \<and>
          (\<forall>c\<in>set (snd (run self v n)). answer v n c = None) \<and>
          (\<exists>sid payload name nm tid.
             GetOrgVDCEdgeGateway sid \<in> set (snd (run self v n)) \<and>
             getOrgVDCEdgeGateway v sid = Inr payload \<and>
             path (vcdDetails self) [Key ''NSXVProviderVDC'', Key ''ExternalNetwork''] = Inr name \<and>
             RenameOrgVDC nm tid \<in> set (snd (run self v n)) \<and>
             renameOrgVDC v nm tid = Inr () \<and>
             last (snd (run self v n)) = RenameOrgVDC nm tid \<and>
             updateSourceExternalNetworkIpPools v payload name = (Inl e, []) \<and>
             first_raised (payload_lookups payload name) = Some e))"
  using assms unfolding run_is_body run_body_def
  apply (simp add: fst_bind_Inl del: path.simps)
  apply (elim disjE exE conjE)
  apply (simp_all add: snd_bind fst_bind raised_def configuration_lookups_def outcome_def
               del: path.simps)
  apply (frule update_failure)
  apply (elim disjE exE conjE)
  apply (simp_all add: snd_bind fst_bind raised_def configuration_lookups_def outcome_def
               del: path.simps)
  done

lemma success_cases:
  assumes "fst (run self v n) = Inr ()"
  shows "first_raised (configuration_lookups self) = None \<and>
         (\<forall>c\<in>set (snd (run self v n)). answer v n c = None) \<and>
         last (snd (run self v n)) = DeleteSession \<and>
         (\<exists>sid payload name.
            GetOrgVDCEdgeGateway sid \<in> set (snd (run self v n)) \<and>
            getOrgVDCEdgeGateway v sid = Inr payload \<and>
            path (vcdDetails self) [Key ''NSXVProviderVDC'', Key ''ExternalNetwork''] = Inr name \<and>
            fst (updateSourceExternalNetworkIpPools v payload name) = Inr () \<and>
            first_raised (payload_lookups payload name) = None)"
  using assms unfolding run_is_body run_body_def
  apply (simp add: fst_bind_Inr del: path.simps)
  apply (elim exE conjE)
  apply (frule update_success_lookups)
  apply (simp add: snd_bind fst_bind raised_def configuration_lookups_def outcome_def
                   update_success_quiet ball_Un
              del: path.simps)
  done

lemma index_error_after_rename:
  assumes name: "path (vcdDetails self) [Key ''NSXVProviderVDC'', Key ''ExternalNetwork''] = Inr name"
    and captured: "GetOrgVDCEdgeGateway sid \<in> set (snd (run self vcdObj nsxtObj))"
                  "getOrgVDCEdgeGateway vcdObj sid = Inr payload"
    and reach: "RenameOrgVDC nm tid \<in> set (snd (run self vcdObj nsxtObj))"
               "renameOrgVDC vcdObj nm tid = Inr ()"
    and U: "updateSourceExternalNetworkIpPools vcdObj payload name = (Inl e, [])"
  shows "fst (run self vcdObj nsxtObj) = Inl e \<and>
         (\<exists>url nets.
            filter is_mutation (snd (run self vcdObj nsxtObj)) =
              [MigrateCatalogItems sid tid url, ClearBridging nets, DeleteOrgVDCNetworks sid,
               DeleteNsxVBackedOrgVDCEdgeGateways sid, DeleteOrgVDC sid,
               RenameTargetOrgVDCNetworks tid, RenameOrgVDC nm tid])"
  using captured reach name unfolding run_is_body run_body_def
  apply (simp add: in_calls_bind del: path.simps)
  apply (elim exE conjE)
  apply (simp add: fst_bind snd_bind U del: path.simps split: prod.splits)
  done

lemma logout_needs_reconciliation:
  assumes name: "path (vcdDetails self) [Key ''NSXVProviderVDC'', Key ''ExternalNetwork''] = Inr name"
    and captured: "GetOrgVDCEdgeGateway sid \<in> set (snd (run self vcdObj nsxtObj))"
                  "getOrgVDCEdgeGateway vcdObj sid = Inr payload"
    and logout: "DeleteSession \<in> set (snd (run self vcdObj nsxtObj))"
  shows "fst (updateSourceExternalNetworkIpPools vcdObj payload name) = Inr ()"
  using captured logout name unfolding run_is_body run_body_def
  apply (simp add: in_calls_bind del: path.simps)
  apply (elim exE conjE)
  apply (simp del: path.simps)
  done

lemma update_call_from_reconciliation:
  assumes name: "path (vcdDetails self) [Key ''NSXVProviderVDC'', Key ''ExternalNetwork''] = Inr name"
    and captured: "GetOrgVDCEdgeGateway sid \<in> set (snd (run self vcdObj nsxtObj))"
                  "getOrgVDCEdgeGateway vcdObj sid = Inr payload"
    and call: "UpdateSourceExternalNetwork a b \<in> set (snd (run self vcdObj nsxtObj))"
  shows "filter is_update (snd (run self vcdObj nsxtObj)) =
           snd (updateSourceExternalNetworkIpPools vcdObj payload name) \<and>
         (\<exists>nm tid. RenameOrgVDC nm tid \<in> set (snd (run self vcdObj nsxtObj)) \<and>
                   renameOrgVDC vcdObj nm tid = Inr ())"
  using captured call name unfolding run_is_body run_body_def
  apply (simp add: in_calls_bind del: path.simps)
  apply (elim exE conjE)
  apply (simp add: fst_bind snd_bind filter_update_calls_id del: path.simps split: prod.splits)
  apply (simp add: filter_update_calls_id del: path.simps split: sum.splits)
  done

lemma update_calls_of_run:
  assumes name: "path (vcdDetails self) [Key ''NSXVProviderVDC'', Key ''ExternalNetwork''] = Inr name"
    and captured: "GetOrgVDCEdgeGateway sid \<in> set (snd (run self vcdObj nsxtObj))"
                  "getOrgVDCEdgeGateway vcdObj sid = Inr payload"
  shows "filter is_update (snd (run self vcdObj nsxtObj)) = [] \<or>
         filter is_update (snd (run self vcdObj nsxtObj)) =
           snd (updateSourceExternalNetworkIpPools vcdObj payload name)"
proof (cases "filter is_update (snd (run self vcdObj nsxtObj))")
  case Nil then show ?thesis by simp
next
  case (Cons c cs)
  then have "c \<in> set (filter is_update (snd (run self vcdObj nsxtObj)))" by simp
  then have c: "c \<in> set (snd (run self vcdObj nsxtObj))" and u: "is_update c" by simp_all
  from u obtain a b where "c = UpdateSourceExternalNetwork a b" by (cases c) simp_all
  with c update_call_from_reconciliation [OF name captured] show ?thesis by blast
qed

section \<open>The claims\<close>

subsection \<open>C3: a disabled target container\<close>




subsection \<open>C4: media attached to a machine of the target container\<close>




subsection \<open>C1: a source container whose backing does not match its provider pool\<close>




subsection \<open>C6: a failure of the logout\<close>

text \<open>
  C6, as amended. The logout of line 149 stands inside the \<open>try\<close> block whose handler
  re-raises. Whenever \<open>run\<close> gets as far as the logout (every statement before it has
  succeeded), the logout is the last call of \<open>run\<close>, and the outcome of \<open>run\<close> is the
  outcome of the logout: \<open>run\<close> succeeds exactly when the logout succeeds, and a failure
  of the logout is the failure of \<open>run\<close>.
\<close>

theorem logout_failure_fails_run:
  assumes reach: "DeleteSession \<in> set (snd (run self vcdObj nsxtObj))"
  shows "fst (run self vcdObj nsxtObj) = deleteSession vcdObj \<and>
         last (snd (run self vcdObj nsxtObj)) = DeleteSession"
  using reach unfolding run_is_body run_body_def
  apply (simp add: in_calls_bind del: path.simps)
  apply (elim exE conjE)
  apply (simp add: fst_bind snd_bind del: path.simps split: prod.splits)
  done

theorem logout_failure_fails_run_witness:
  "DeleteSession \<in> set (snd (run demo_self logout_vcd demo_nsxt)) \<and>
   fst (run demo_self logout_vcd demo_nsxt) = Inl (Exn OperationError ''logout failed'') \<and>
   last (snd (run demo_self logout_vcd demo_nsxt)) = DeleteSession"
proof -
  have r: "DeleteSession \<in> set (snd (run demo_self logout_vcd demo_nsxt))"
    by (simp add: run_defs demo_defs)
  have d: "deleteSession logout_vcd = Inl (Exn OperationError ''logout failed'')"
    by (simp add: demo_defs)
  from logout_failure_fails_run [OF r] r d show ?thesis by simp
qed

text \<open>
  C6 as stated fails: in the sample configuration every call before the logout is
  answered without an exception, the logout fails, and \<open>run\<close> fails with the error of
  the logout.
\<close>

theorem logout_failure_counterexample:
  "run demo_self logout_vcd demo_nsxt =
     (Inl (Exn OperationError ''logout failed''),
      demo_calls @
        [UpdateSourceExternalNetwork (PStr ''ext'') (PList [PStr ''10.1.1.2-10.1.1.9'']),
         DeleteSession]) \<and>
   set (map (answer logout_vcd demo_nsxt)
          (demo_calls @
             [UpdateSourceExternalNetwork (PStr ''ext'') (PList [PStr ''10.1.1.2-10.1.1.9''])]))
     = {None} \<and>
   answer logout_vcd demo_nsxt DeleteSession = Some (Exn OperationError ''logout failed'')"
  by (simp add: run_defs demo_defs raised_def)

subsection \<open>C2: the order of the removal of the bridging and of the three deletions\<close>

text \<open>
  C2. In every successful run, the calls that remove the bridging or delete something
  are, in the order in which they were issued, exactly these four: \<open>clearBridging\<close>,
  then \<open>deleteOrgVDCNetworks\<close>, then \<open>deleteNsxVBackedOrgVDCEdgeGateways\<close>, then
  \<open>deleteOrgVDC\<close>, the three deletions on one and the same container. So each of them
  is issued once, and strictly before the next.
\<close>

theorem unbridge_then_deletions_in_order:
  assumes ok: "fst (run self vcdObj nsxtObj) = Inr ()"
  shows "\<exists>nets sid.
           filter is_unbridge_or_deletion (snd (run self vcdObj nsxtObj)) =
             [ClearBridging nets, DeleteOrgVDCNetworks sid,
              DeleteNsxVBackedOrgVDCEdgeGateways sid, DeleteOrgVDC sid]"
  using ok unfolding run_is_body run_body_def
  apply (simp add: fst_bind_Inr del: path.simps)
  apply (elim exE conjE)
  apply (simp add: snd_bind filter_update_calls [OF unbridge_not_update]
              del: path.simps split: prod.splits)
  done

theorem unbridge_then_deletions_in_order_witness:
  "fst (run demo_self demo_vcd demo_nsxt) = Inr () \<and>
   (\<exists>nets sid.
      filter is_unbridge_or_deletion (snd (run demo_self demo_vcd demo_nsxt)) =
        [ClearBridging nets, DeleteOrgVDCNetworks sid,
         DeleteNsxVBackedOrgVDCEdgeGateways sid, DeleteOrgVDC sid])"
proof -
  have ok: "fst (run demo_self demo_vcd demo_nsxt) = Inr ()"
    by (simp add: demo_run)
  from unbridge_then_deletions_in_order [OF ok] ok show ?thesis by blast
qed

subsection \<open>C8: the name of the target container\<close>

text \<open>
  C8. Let the configured name of the source container be the string \<open>N\<close>. Every call
  of \<open>run\<close> that resolves the target container (line 90) asks for the name \<open>N\<close> followed
  by \<open>-t\<close>. Every call of \<open>run\<close> that renames a container (line 134) gives the name \<open>N\<close>
  itself, to the container whose identifier the resolution of \<open>N-t\<close> returned. And a
  successful run does rename a container.
\<close>

theorem target_resolved_with_marker_renamed_without:
  assumes name: "path (vcdDetails self) [Key ''SourceOrgVDC'', Key ''OrgVDCName''] = Inr (PStr N)"
  shows "(\<forall>u nm sv. GetOrgVDCDetails u nm ''targetOrgVDC'' sv \<in> set (snd (run self vcdObj nsxtObj))
            \<longrightarrow> nm = PStr (N @ ''-t'')) \<and>
         (\<forall>nm tid. RenameOrgVDC nm tid \<in> set (snd (run self vcdObj nsxtObj))
            \<longrightarrow> nm = PStr N \<and>
                (\<exists>u. getOrgVDCDetails vcdObj u (PStr (N @ ''-t'')) ''targetOrgVDC'' False = Inr tid \<and>
                     GetOrgVDCDetails u (PStr (N @ ''-t'')) ''targetOrgVDC'' False
                       \<in> set (snd (run self vcdObj nsxtObj)))) \<and>
         (fst (run self vcdObj nsxtObj) = Inr ()
            \<longrightarrow> (\<exists>nm tid. RenameOrgVDC nm tid \<in> set (snd (run self vcdObj nsxtObj))))"
proof (intro conjI allI impI)
  fix u nm sv
  assume "GetOrgVDCDetails u nm ''targetOrgVDC'' sv \<in> set (snd (run self vcdObj nsxtObj))"
  with name show "nm = PStr (N @ ''-t'')" by (rule target_resolution_name)
next
  fix nm tid
  assume r: "RenameOrgVDC nm tid \<in> set (snd (run self vcdObj nsxtObj))"
  from rename_name [OF name r] show "nm = PStr N" by (rule conjunct1)
  from rename_name [OF name r]
  show "\<exists>u. getOrgVDCDetails vcdObj u (PStr (N @ ''-t'')) ''targetOrgVDC'' False = Inr tid \<and>
            GetOrgVDCDetails u (PStr (N @ ''-t'')) ''targetOrgVDC'' False
              \<in> set (snd (run self vcdObj nsxtObj))"
    by (rule conjunct2)
next
  assume "fst (run self vcdObj nsxtObj) = Inr ()"
  then show "\<exists>nm tid. RenameOrgVDC nm tid \<in> set (snd (run self vcdObj nsxtObj))"
    by (rule success_renames)
qed

theorem target_resolved_with_marker_renamed_without_witness:
  "path (vcdDetails demo_self) [Key ''SourceOrgVDC'', Key ''OrgVDCName''] = Inr (PStr ''vdc'') \<and>
   fst (run demo_self demo_vcd demo_nsxt) = Inr () \<and>
   GetOrgVDCDetails (PStr ''url'') (PStr ''vdc-t'') ''targetOrgVDC'' False
     \<in> set (snd (run demo_self demo_vcd demo_nsxt)) \<and>
   RenameOrgVDC (PStr ''vdc'') (PStr ''tid'') \<in> set (snd (run demo_self demo_vcd demo_nsxt)) \<and>
   (\<exists>u. getOrgVDCDetails demo_vcd u (PStr (''vdc'' @ ''-t'')) ''targetOrgVDC'' False = Inr (PStr ''tid'') \<and>
        GetOrgVDCDetails u (PStr (''vdc'' @ ''-t'')) ''targetOrgVDC'' False
          \<in> set (snd (run demo_self demo_vcd demo_nsxt)))"
proof -
  have n: "path (vcdDetails demo_self) [Key ''SourceOrgVDC'', Key ''OrgVDCName''] = Inr (PStr ''vdc'')"
    by (simp add: demo_defs)
  have ok: "fst (run demo_self demo_vcd demo_nsxt) = Inr ()"
    by (simp add: demo_run)
  have g: "GetOrgVDCDetails (PStr ''url'') (PStr ''vdc-t'') ''targetOrgVDC'' False
             \<in> set (snd (run demo_self demo_vcd demo_nsxt))"
    by (simp add: demo_run demo_calls_def)
  have r: "RenameOrgVDC (PStr ''vdc'') (PStr ''tid'') \<in> set (snd (run demo_self demo_vcd demo_nsxt))"
    by (simp add: demo_run demo_calls_def)
  from target_resolved_with_marker_renamed_without [OF n, of demo_vcd demo_nsxt] r
  have "\<exists>u. getOrgVDCDetails demo_vcd u (PStr (''vdc'' @ ''-t'')) ''targetOrgVDC'' False = Inr (PStr ''tid'') \<and>
            GetOrgVDCDetails u (PStr (''vdc'' @ ''-t'')) ''targetOrgVDC'' False
              \<in> set (snd (run demo_self demo_vcd demo_nsxt))"
    by blast
  with n ok g r show ?thesis by blast
qed

subsection \<open>C9: unguarded first elements in the reconciliation of the IP pools\<close>

text \<open>
  C9. Let \<open>payload\<close> be the edge gateways that line 82 captured for the source container
  \<open>sid\<close>, and let its list \<open>values\<close> be empty, or let the first uplink of its first
  gateway that carries the name of the source external network have an empty list of
  subnets. Then \<open>run\<close> never skips the reconciliation: it fails, it never reaches the
  logout, and it never calls \<open>updateSourceExternalNetwork\<close>. And when no call of \<open>run\<close>
  is answered with an exception and no lookup in the configuration raises, the failure
  is the \<open>IndexError\<close> of the unguarded index, and by then the calls that change a
  remote system are exactly the relocation of the catalog items, the removal of the
  bridging, the three deletions and the two renamings, in this order: the failure comes
  after all of them have been applied.
\<close>

theorem unguarded_index_fails_after_deletions:
  assumes name: "path (vcdDetails self) [Key ''NSXVProviderVDC'', Key ''ExternalNetwork''] = Inr name"
    and captured: "GetOrgVDCEdgeGateway sid \<in> set (snd (run self vcdObj nsxtObj))"
                  "getOrgVDCEdgeGateway vcdObj sid = Inr payload"
    and unguarded:
      "subscript payload (Key ''values'') = Inr (PList []) \<or>
       (\<exists>uplinks u us.
          path payload [Key ''values'', Idx 0, Key ''edgeGatewayUplinks''] = Inr uplinks \<and>
          comprehension uplinks name = Inr (u # us) \<and>
          path u [Key ''subnets'', Key ''values''] = Inr (PList []))"
  shows "(\<exists>e. fst (run self vcdObj nsxtObj) = Inl e) \<and>
         DeleteSession \<notin> set (snd (run self vcdObj nsxtObj)) \<and>
         filter is_update (snd (run self vcdObj nsxtObj)) = [] \<and>
         ((\<forall>c\<in>set (snd (run self vcdObj nsxtObj)). answer vcdObj nsxtObj c = None) \<and>
          first_raised (configuration_lookups self) = None \<longrightarrow>
            fst (run self vcdObj nsxtObj) = Inl (Exn IndexError ''list index out of range'') \<and>
            (\<exists>url nets nm tid.
               filter is_mutation (snd (run self vcdObj nsxtObj)) =
                 [MigrateCatalogItems sid tid url, ClearBridging nets, DeleteOrgVDCNetworks sid,
                  DeleteNsxVBackedOrgVDCEdgeGateways sid, DeleteOrgVDC sid,
                  RenameTargetOrgVDCNetworks tid, RenameOrgVDC nm tid]))"
proof -
  note U = step_index_error [OF unguarded, of vcdObj]
  have no_logout: "DeleteSession \<notin> set (snd (run self vcdObj nsxtObj))"
  proof
    assume "DeleteSession \<in> set (snd (run self vcdObj nsxtObj))"
    from logout_needs_reconciliation [OF name captured this] U show False by simp
  qed
  then have fails: "\<exists>e. fst (run self vcdObj nsxtObj) = Inl e"
    by (rule fails_without_logout)
  from update_calls_of_run [OF name captured] U
  have no_update: "filter is_update (snd (run self vcdObj nsxtObj)) = []" by simp
  have after: "fst (run self vcdObj nsxtObj) = Inl (Exn IndexError ''list index out of range'') \<and>
            (\<exists>url nets nm tid.
               filter is_mutation (snd (run self vcdObj nsxtObj)) =
                 [MigrateCatalogItems sid tid url, ClearBridging nets, DeleteOrgVDCNetworks sid,
                  DeleteNsxVBackedOrgVDCEdgeGateways sid, DeleteOrgVDC sid,
                  RenameTargetOrgVDCNetworks tid, RenameOrgVDC nm tid])"
    if quiet: "\<forall>c\<in>set (snd (run self vcdObj nsxtObj)). answer vcdObj nsxtObj c = None"
      and config: "first_raised (configuration_lookups self) = None"
  proof -
    from fails obtain e where e: "fst (run self vcdObj nsxtObj) = Inl e" by blast
    from failure_cases [OF e] quiet config
    obtain nm tid where "RenameOrgVDC nm tid \<in> set (snd (run self vcdObj nsxtObj))"
      and "renameOrgVDC vcdObj nm tid = Inr ()"
      by (cases "snd (run self vcdObj nsxtObj) = []") auto
    from index_error_after_rename [OF name captured this U] show ?thesis by blast
  qed
  from fails no_logout no_update after show ?thesis by blast
qed

text \<open>
  Both cases in the sample configuration: a payload without any gateway, and a payload
  whose matching uplink has no subnet.
\<close>

theorem unguarded_index_fails_after_deletions_witness:
  "getOrgVDCEdgeGateway no_gateway_vcd (PStr ''sid'') = Inr (payload_with []) \<and>
   subscript (payload_with []) (Key ''values'') = Inr (PList []) \<and>
   run demo_self no_gateway_vcd demo_nsxt =
     (Inl (Exn IndexError ''list index out of range''), demo_calls) \<and>
   getOrgVDCEdgeGateway no_subnet_vcd (PStr ''sid'') = Inr no_subnet_payload \<and>
   path no_subnet_payload [Key ''values'', Idx 0, Key ''edgeGatewayUplinks'']
     = Inr (PList [uplink_with ''ext'' []]) \<and>
   comprehension (PList [uplink_with ''ext'' []]) (PStr ''ext'') = Inr [uplink_with ''ext'' []] \<and>
   path (uplink_with ''ext'' []) [Key ''subnets'', Key ''values''] = Inr (PList []) \<and>
   run demo_self no_subnet_vcd demo_nsxt =
     (Inl (Exn IndexError ''list index out of range''), demo_calls) \<and>
   first_raised (configuration_lookups demo_self) = None \<and>
   set (map (answer no_gateway_vcd demo_nsxt) demo_calls) = {None} \<and>
   set (map (answer no_subnet_vcd demo_nsxt) demo_calls) = {None} \<and>
   filter is_mutation demo_calls =
     [MigrateCatalogItems (PStr ''sid'') (PStr ''tid'') (PStr ''url''),
      ClearBridging (PList [PStr ''net1'']), DeleteOrgVDCNetworks (PStr ''sid''),
      DeleteNsxVBackedOrgVDCEdgeGateways (PStr ''sid''), DeleteOrgVDC (PStr ''sid''),
      RenameTargetOrgVDCNetworks (PStr ''tid''), RenameOrgVDC (PStr ''vdc'') (PStr ''tid'')]"
proof -
  have n: "path (vcdDetails demo_self) [Key ''NSXVProviderVDC'', Key ''ExternalNetwork''] = Inr (PStr ''ext'')"
    by (simp add: demo_defs)
  have l: "first_raised (configuration_lookups demo_self) = None"
    by (simp add: configuration_lookups_def outcome_def clientArguments_def demo_defs)
  have r1: "run demo_self no_gateway_vcd demo_nsxt =
              (Inl (Exn IndexError ''list index out of range''), demo_calls)"
    by (simp add: run_defs demo_defs)
  have r2: "run demo_self no_subnet_vcd demo_nsxt =
              (Inl (Exn IndexError ''list index out of range''), demo_calls)"
    by (simp add: run_defs demo_defs)
  have g1: "GetOrgVDCEdgeGateway (PStr ''sid'') \<in> set (snd (run demo_self no_gateway_vcd demo_nsxt))"
    unfolding r1 by (simp add: demo_calls_def)
  have g2: "GetOrgVDCEdgeGateway (PStr ''sid'') \<in> set (snd (run demo_self no_subnet_vcd demo_nsxt))"
    unfolding r2 by (simp add: demo_calls_def)
  have p1: "getOrgVDCEdgeGateway no_gateway_vcd (PStr ''sid'') = Inr (payload_with [])"
    by (simp add: demo_defs)
  have p2: "getOrgVDCEdgeGateway no_subnet_vcd (PStr ''sid'') = Inr no_subnet_payload"
    by (simp add: no_subnet_vcd_def)
  have e1: "subscript (payload_with []) (Key ''values'') = Inr (PList [])"
    by (simp add: demo_defs)
  have e2: "path no_subnet_payload [Key ''values'', Idx 0, Key ''edgeGatewayUplinks'']
              = Inr (PList [uplink_with ''ext'' []])"
           "comprehension (PList [uplink_with ''ext'' []]) (PStr ''ext'') = Inr [uplink_with ''ext'' []]"
           "path (uplink_with ''ext'' []) [Key ''subnets'', Key ''values''] = Inr (PList [])"
    by (simp_all add: demo_defs py_eq_def)
  have q1: "set (map (answer no_gateway_vcd demo_nsxt) demo_calls) = {None}"
    by (simp add: raised_def run_defs demo_defs)
  have q2: "set (map (answer no_subnet_vcd demo_nsxt) demo_calls) = {None}"
    by (simp add: raised_def run_defs demo_defs)
  have u1: "subscript (payload_with []) (Key ''values'') = Inr (PList []) \<or>
       (\<exists>uplinks u us.
          path (payload_with []) [Key ''values'', Idx 0, Key ''edgeGatewayUplinks''] = Inr uplinks \<and>
          comprehension uplinks (PStr ''ext'') = Inr (u # us) \<and>
          path u [Key ''subnets'', Key ''values''] = Inr (PList []))"
    using e1 by (rule disjI1)
  have u2: "subscript no_subnet_payload (Key ''values'') = Inr (PList []) \<or>
       (\<exists>uplinks u us.
          path no_subnet_payload [Key ''values'', Idx 0, Key ''edgeGatewayUplinks''] = Inr uplinks \<and>
          comprehension uplinks (PStr ''ext'') = Inr (u # us) \<and>
          path u [Key ''subnets'', Key ''values''] = Inr (PList []))"
    using e2 by blast
  have m: "filter is_mutation demo_calls =
     [MigrateCatalogItems (PStr ''sid'') (PStr ''tid'') (PStr ''url''),
      ClearBridging (PList [PStr ''net1'']), DeleteOrgVDCNetworks (PStr ''sid''),
      DeleteNsxVBackedOrgVDCEdgeGateways (PStr ''sid''), DeleteOrgVDC (PStr ''sid''),
      RenameTargetOrgVDCNetworks (PStr ''tid''), RenameOrgVDC (PStr ''vdc'') (PStr ''tid'')]"
    by (simp add: demo_calls_def)
  from unguarded_index_fails_after_deletions [OF n g1 p1 u1]
       unguarded_index_fails_after_deletions [OF n g2 p2 u2]
       l r1 r2 p1 p2 e1 e2 q1 q2 m
  show ?thesis by simp
qed

subsection \<open>C10: only the first gateway and the first subnet are read\<close>

text \<open>
  C10. Whatever the payload, every call that the reconciliation of lines 136 to 144
  makes is \<open>updateSourceExternalNetwork\<close> with the IP ranges of the first subnet of the
  first uplink of the first gateway that carries the name of the source external
  network, and these ranges are not empty. Moreover, let the payload hold the gateways
  \<open>g # gs\<close>. If no uplink of \<open>g\<close> carries the name, nothing is called, whatever the
  later gateways \<open>gs\<close> hold. If \<open>u # us\<close> are the uplinks of \<open>g\<close> that carry the name,
  \<open>s # ss\<close> the subnets of \<open>u\<close> and \<open>ranges\<close> the IP ranges of \<open>s\<close>, then
  \<open>updateSourceExternalNetwork\<close> is called with \<open>ranges\<close> when they are not empty, and
  nothing is called when they are empty, whatever \<open>gs\<close>, \<open>us\<close> and \<open>ss\<close> hold.
\<close>

theorem reconciliation_reads_first_gateway_first_subnet:
  "(\<forall>c\<in>set (snd (updateSourceExternalNetworkIpPools v payload name)).
      \<exists>uplinks u us ranges.
        path payload [Key ''values'', Idx 0, Key ''edgeGatewayUplinks''] = Inr uplinks \<and>
        comprehension uplinks name = Inr (u # us) \<and>
        path u [Key ''subnets'', Key ''values'', Idx 0, Key ''ipRanges'', Key ''values''] = Inr ranges \<and>
        truthy ranges \<and>
        c = UpdateSourceExternalNetwork name ranges) \<and>
   (\<forall>g gs uplinks.
      subscript payload (Key ''values'') = Inr (PList (g # gs)) \<and>
      subscript g (Key ''edgeGatewayUplinks'') = Inr uplinks \<longrightarrow>
        (comprehension uplinks name = Inr [] \<longrightarrow>
           updateSourceExternalNetworkIpPools v payload name = (Inr (), [])) \<and>
        (\<forall>u us s ss ranges.
           comprehension uplinks name = Inr (u # us) \<and>
           path u [Key ''subnets'', Key ''values''] = Inr (PList (s # ss)) \<and>
           path s [Key ''ipRanges'', Key ''values''] = Inr ranges \<longrightarrow>
             updateSourceExternalNetworkIpPools v payload name =
               (if truthy ranges
                then (updateSourceExternalNetwork v name ranges,
                      [UpdateSourceExternalNetwork name ranges])
                else (Inr (), []))))"
proof (intro conjI ballI allI impI; (elim conjE)?)
  fix c
  assume "c \<in> set (snd (updateSourceExternalNetworkIpPools v payload name))"
  then show "\<exists>uplinks u us ranges.
        path payload [Key ''values'', Idx 0, Key ''edgeGatewayUplinks''] = Inr uplinks \<and>
        comprehension uplinks name = Inr (u # us) \<and>
        path u [Key ''subnets'', Key ''values'', Idx 0, Key ''ipRanges'', Key ''values''] = Inr ranges \<and>
        truthy ranges \<and>
        c = UpdateSourceExternalNetwork name ranges"
    unfolding update_unfold
    by (auto simp del: path.simps split: sum.splits list.splits if_splits)
next
  fix g gs uplinks
  assume "subscript payload (Key ''values'') = Inr (PList (g # gs))"
    and "subscript g (Key ''edgeGatewayUplinks'') = Inr uplinks"
    and m: "comprehension uplinks name = Inr []"
  then have "path payload [Key ''values'', Idx 0, Key ''edgeGatewayUplinks''] = Inr uplinks"
    by simp
  from update_none [OF this m]
  show "updateSourceExternalNetworkIpPools v payload name = (Inr (), [])" .
next
  fix g gs uplinks u us s ss ranges
  assume "subscript payload (Key ''values'') = Inr (PList (g # gs))"
    and "subscript g (Key ''edgeGatewayUplinks'') = Inr uplinks"
    and m: "comprehension uplinks name = Inr (u # us)"
    and subnets: "path u [Key ''subnets'', Key ''values''] = Inr (PList (s # ss))"
    and ranges: "path s [Key ''ipRanges'', Key ''values''] = Inr ranges"
  then have p1: "path payload [Key ''values'', Idx 0, Key ''edgeGatewayUplinks''] = Inr uplinks"
    by simp
  have "path u ([Key ''subnets'', Key ''values''] @ [Idx 0, Key ''ipRanges'', Key ''values''])
          = Inr ranges"
    unfolding path_append using subnets ranges by simp
  then have p2: "path u [Key ''subnets'', Key ''values'', Idx 0, Key ''ipRanges'', Key ''values'']
          = Inr ranges"
    by simp
  from update_first [OF p1 m p2]
  show "updateSourceExternalNetworkIpPools v payload name =
          (if truthy ranges
           then (updateSourceExternalNetwork v name ranges, [UpdateSourceExternalNetwork name ranges])
           else (Inr (), []))" .
qed

text \<open>
  In \<open>second_gateway_payload\<close> only the second gateway has a matching uplink: nothing
  is called. In \<open>later_payload\<close> the first subnet of the matching uplink of the first
  gateway has no ranges, while its second subnet and the matching uplink of the second
  gateway have some: nothing is called. In \<open>rich_payload\<close> the one call passes the
  ranges of the first subnet of the first matching uplink of the first gateway.
\<close>

theorem reconciliation_reads_first_gateway_first_subnet_witness:
  "subscript second_gateway_payload (Key ''values'') =
     Inr (PList [gateway_with [uplink_with ''other'' [subnet_with [PStr ''10.3.3.2-10.3.3.9'']]],
                 gateway_with [uplink_with ''ext'' [subnet_with [PStr ''10.2.2.2-10.2.2.9'']]]]) \<and>
   comprehension (PList [uplink_with ''other'' [subnet_with [PStr ''10.3.3.2-10.3.3.9'']]]) (PStr ''ext'')
     = Inr [] \<and>
   updateSourceExternalNetworkIpPools demo_vcd second_gateway_payload (PStr ''ext'') = (Inr (), []) \<and>
   subscript later_payload (Key ''values'') =
     Inr (PList
       [gateway_with [uplink_with ''other'' [subnet_with [PStr ''10.3.3.2-10.3.3.9'']],
                      uplink_with ''ext'' [subnet_with [], subnet_with [PStr ''10.1.1.2-10.1.1.9'']]],
        gateway_with [uplink_with ''ext'' [subnet_with [PStr ''10.2.2.2-10.2.2.9'']]]]) \<and>
   comprehension
     (PList [uplink_with ''other'' [subnet_with [PStr ''10.3.3.2-10.3.3.9'']],
             uplink_with ''ext'' [subnet_with [], subnet_with [PStr ''10.1.1.2-10.1.1.9'']]])
     (PStr ''ext'')
     = Inr [uplink_with ''ext'' [subnet_with [], subnet_with [PStr ''10.1.1.2-10.1.1.9'']]] \<and>
   path (subnet_with []) [Key ''ipRanges'', Key ''values''] = Inr (PList []) \<and>
   updateSourceExternalNetworkIpPools demo_vcd later_payload (PStr ''ext'') = (Inr (), []) \<and>
   snd (updateSourceExternalNetworkIpPools demo_vcd rich_payload (PStr ''ext'')) =
     [UpdateSourceExternalNetwork (PStr ''ext'') (PList [PStr ''10.1.1.2-10.1.1.9''])]"
proof -
  note T = reconciliation_reads_first_gateway_first_subnet
  have a2: "subscript second_gateway_payload (Key ''values'') =
     Inr (PList (gateway_with [uplink_with ''other'' [subnet_with [PStr ''10.3.3.2-10.3.3.9'']]] #
                 [gateway_with [uplink_with ''ext'' [subnet_with [PStr ''10.2.2.2-10.2.2.9'']]]]))"
    by (simp add: demo_defs)
  have b2: "subscript (gateway_with [uplink_with ''other'' [subnet_with [PStr ''10.3.3.2-10.3.3.9'']]])
              (Key ''edgeGatewayUplinks'')
            = Inr (PList [uplink_with ''other'' [subnet_with [PStr ''10.3.3.2-10.3.3.9'']]])"
    by (simp add: demo_defs)
  have c2: "comprehension (PList [uplink_with ''other'' [subnet_with [PStr ''10.3.3.2-10.3.3.9'']]])
              (PStr ''ext'') = Inr []"
    by (simp add: demo_defs py_eq_def)
  from T [of demo_vcd second_gateway_payload "PStr ''ext''"] a2 b2 c2
  have r2: "updateSourceExternalNetworkIpPools demo_vcd second_gateway_payload (PStr ''ext'') = (Inr (), [])"
    by blast
  have a: "subscript later_payload (Key ''values'') =
     Inr (PList (gateway_with [uplink_with ''other'' [subnet_with [PStr ''10.3.3.2-10.3.3.9'']],
                      uplink_with ''ext'' [subnet_with [], subnet_with [PStr ''10.1.1.2-10.1.1.9'']]] #
        [gateway_with [uplink_with ''ext'' [subnet_with [PStr ''10.2.2.2-10.2.2.9'']]]]))"
    by (simp add: demo_defs)
  have b: "subscript (gateway_with [uplink_with ''other'' [subnet_with [PStr ''10.3.3.2-10.3.3.9'']],
                      uplink_with ''ext'' [subnet_with [], subnet_with [PStr ''10.1.1.2-10.1.1.9'']]])
              (Key ''edgeGatewayUplinks'') =
           Inr (PList [uplink_with ''other'' [subnet_with [PStr ''10.3.3.2-10.3.3.9'']],
                      uplink_with ''ext'' [subnet_with [], subnet_with [PStr ''10.1.1.2-10.1.1.9'']]])"
    by (simp add: demo_defs)
  have c: "comprehension (PList [uplink_with ''other'' [subnet_with [PStr ''10.3.3.2-10.3.3.9'']],
                      uplink_with ''ext'' [subnet_with [], subnet_with [PStr ''10.1.1.2-10.1.1.9'']]])
             (PStr ''ext'')
            = Inr (uplink_with ''ext'' [subnet_with [], subnet_with [PStr ''10.1.1.2-10.1.1.9'']] # [])"
    by (simp add: demo_defs py_eq_def)
  have d: "path (uplink_with ''ext'' [subnet_with [], subnet_with [PStr ''10.1.1.2-10.1.1.9'']])
             [Key ''subnets'', Key ''values''] =
           Inr (PList (subnet_with [] # [subnet_with [PStr ''10.1.1.2-10.1.1.9'']]))"
    by (simp add: demo_defs)
  have e: "path (subnet_with []) [Key ''ipRanges'', Key ''values''] = Inr (PList [])"
    by (simp add: demo_defs)
  from T [of demo_vcd later_payload "PStr ''ext''"] a b c d e
  have "updateSourceExternalNetworkIpPools demo_vcd later_payload (PStr ''ext'') =
          (if truthy (PList []) then (updateSourceExternalNetwork demo_vcd (PStr ''ext'') (PList []),
                      [UpdateSourceExternalNetwork (PStr ''ext'') (PList [])])
           else (Inr (), []))"
    by blast
  then have r: "updateSourceExternalNetworkIpPools demo_vcd later_payload (PStr ''ext'') = (Inr (), [])"
    by simp
  have k: "snd (updateSourceExternalNetworkIpPools demo_vcd rich_payload (PStr ''ext'')) =
     [UpdateSourceExternalNetwork (PStr ''ext'') (PList [PStr ''10.1.1.2-10.1.1.9''])]"
    by (simp add: run_defs demo_defs)
  from a2 c2 r2 a c e r k show ?thesis by simp
qed

subsection \<open>C5: when the IP pools of the source external network are updated\<close>

text \<open>
  C5, as amended. Let \<open>payload\<close> be the edge gateways that line 82 captured for the
  source container. Let the list \<open>uplinks\<close> of the first gateway of the payload be
  readable, let every uplink in it have a name, so that the uplinks \<open>found\<close> that carry
  the name of the source external network can be collected, and, when there is one,
  let the IP ranges \<open>ranges\<close> of the first subnet of the first of them be readable.
  If \<open>found\<close> is empty or \<open>ranges\<close> is empty, \<open>run\<close> never calls
  \<open>updateSourceExternalNetwork\<close>; otherwise it calls it at most once, with the name
  and with \<open>ranges\<close>. And once \<open>run\<close> has renamed the target container (line 134): if
  \<open>found\<close> is empty or \<open>ranges\<close> is empty, \<open>run\<close> goes on to the logout, whose outcome
  is the outcome of \<open>run\<close>; otherwise \<open>run\<close> calls \<open>updateSourceExternalNetwork\<close> exactly
  once, with the name and with \<open>ranges\<close>, and goes on to the logout when that call
  succeeds.
\<close>

theorem update_call_follows_first_match:
  assumes name: "path (vcdDetails self) [Key ''NSXVProviderVDC'', Key ''ExternalNetwork''] = Inr name"
    and captured: "GetOrgVDCEdgeGateway sid \<in> set (snd (run self vcdObj nsxtObj))"
                  "getOrgVDCEdgeGateway vcdObj sid = Inr payload"
    and first_gateway: "path payload [Key ''values'', Idx 0, Key ''edgeGatewayUplinks''] = Inr uplinks"
    and matching: "comprehension uplinks name = Inr found"
    and first_subnet:
      "found = [] \<or>
       path (hd found) [Key ''subnets'', Key ''values'', Idx 0, Key ''ipRanges'', Key ''values'']
         = Inr ranges"
  shows "(if found = [] \<or> \<not> truthy ranges
          then filter is_update (snd (run self vcdObj nsxtObj)) = []
          else filter is_update (snd (run self vcdObj nsxtObj)) = [] \<or>
               filter is_update (snd (run self vcdObj nsxtObj)) =
                 [UpdateSourceExternalNetwork name ranges]) \<and>
         (\<forall>nm tid.
            RenameOrgVDC nm tid \<in> set (snd (run self vcdObj nsxtObj)) \<and>
            renameOrgVDC vcdObj nm tid = Inr () \<longrightarrow>
              (if found = [] \<or> \<not> truthy ranges
               then fst (run self vcdObj nsxtObj) = deleteSession vcdObj
               else filter is_update (snd (run self vcdObj nsxtObj)) =
                      [UpdateSourceExternalNetwork name ranges] \<and>
                    fst (run self vcdObj nsxtObj) =
                      (case updateSourceExternalNetwork vcdObj name ranges of
                         Inl e \<Rightarrow> Inl e | Inr _ \<Rightarrow> deleteSession vcdObj)))"
proof -
  have U: "updateSourceExternalNetworkIpPools vcdObj payload name =
             (if found = [] \<or> \<not> truthy ranges then (Inr (), [])
              else (updateSourceExternalNetwork vcdObj name ranges,
                    [UpdateSourceExternalNetwork name ranges]))"
  proof (cases found)
    case Nil
    with matching have "comprehension uplinks name = Inr []" by simp
    from update_none [OF first_gateway this, of vcdObj] Nil show ?thesis by simp
  next
    case (Cons u us)
    with matching have m: "comprehension uplinks name = Inr (u # us)" by simp
    from first_subnet Cons
    have p: "path u [Key ''subnets'', Key ''values'', Idx 0, Key ''ipRanges'', Key ''values''] = Inr ranges"
      by simp
    from update_first [OF first_gateway m p, of vcdObj] Cons show ?thesis by simp
  qed
  from update_calls_of_run [OF name captured] U
  have always: "if found = [] \<or> \<not> truthy ranges
          then filter is_update (snd (run self vcdObj nsxtObj)) = []
          else filter is_update (snd (run self vcdObj nsxtObj)) = [] \<or>
               filter is_update (snd (run self vcdObj nsxtObj)) =
                 [UpdateSourceExternalNetwork name ranges]"
    by (simp split: if_splits)
  have reached: "if found = [] \<or> \<not> truthy ranges
               then fst (run self vcdObj nsxtObj) = deleteSession vcdObj
               else filter is_update (snd (run self vcdObj nsxtObj)) =
                      [UpdateSourceExternalNetwork name ranges] \<and>
                    fst (run self vcdObj nsxtObj) =
                      (case updateSourceExternalNetwork vcdObj name ranges of
                         Inl e \<Rightarrow> Inl e | Inr _ \<Rightarrow> deleteSession vcdObj)"
    if "RenameOrgVDC nm tid \<in> set (snd (run self vcdObj nsxtObj))"
       "renameOrgVDC vcdObj nm tid = Inr ()" for nm tid
    using run_tail [OF name captured that] U by (simp del: path.simps split: if_splits)
  from always reached show ?thesis by blast
qed

text \<open>
  In \<open>rich_payload\<close> two uplinks of the first gateway and one of the second carry the
  name, and the first of them has two subnets: the one call passes the ranges of its
  first subnet.
\<close>

theorem update_call_follows_first_match_witness:
  "path (vcdDetails demo_self) [Key ''NSXVProviderVDC'', Key ''ExternalNetwork''] = Inr (PStr ''ext'') \<and>
   GetOrgVDCEdgeGateway (PStr ''sid'') \<in> set (snd (run demo_self rich_vcd demo_nsxt)) \<and>
   getOrgVDCEdgeGateway rich_vcd (PStr ''sid'') = Inr rich_payload \<and>
   RenameOrgVDC (PStr ''vdc'') (PStr ''tid'') \<in> set (snd (run demo_self rich_vcd demo_nsxt)) \<and>
   renameOrgVDC rich_vcd (PStr ''vdc'') (PStr ''tid'') = Inr () \<and>
   path rich_payload [Key ''values'', Idx 0, Key ''edgeGatewayUplinks'']
     = Inr (PList [uplink_with ''other'' [subnet_with [PStr ''10.3.3.2-10.3.3.9'']],
                   uplink_with ''ext'' [subnet_with [PStr ''10.1.1.2-10.1.1.9''],
                                        subnet_with [PStr ''10.4.4.2-10.4.4.9'']],
                   uplink_with ''ext'' [subnet_with [PStr ''10.5.5.2-10.5.5.9'']]]) \<and>
   comprehension
     (PList [uplink_with ''other'' [subnet_with [PStr ''10.3.3.2-10.3.3.9'']],
             uplink_with ''ext'' [subnet_with [PStr ''10.1.1.2-10.1.1.9''],
                                  subnet_with [PStr ''10.4.4.2-10.4.4.9'']],
             uplink_with ''ext'' [subnet_with [PStr ''10.5.5.2-10.5.5.9'']]])
     (PStr ''ext'')
     = Inr [uplink_with ''ext'' [subnet_with [PStr ''10.1.1.2-10.1.1.9''],
                                 subnet_with [PStr ''10.4.4.2-10.4.4.9'']],
            uplink_with ''ext'' [subnet_with [PStr ''10.5.5.2-10.5.5.9'']]] \<and>
   path (uplink_with ''ext'' [subnet_with [PStr ''10.1.1.2-10.1.1.9''],
                              subnet_with [PStr ''10.4.4.2-10.4.4.9'']])
     [Key ''subnets'', Key ''values'', Idx 0, Key ''ipRanges'', Key ''values'']
     = Inr (PList [PStr ''10.1.1.2-10.1.1.9'']) \<and>
   filter is_update (snd (run demo_self rich_vcd demo_nsxt)) =
     [UpdateSourceExternalNetwork (PStr ''ext'') (PList [PStr ''10.1.1.2-10.1.1.9''])] \<and>
   fst (run demo_self rich_vcd demo_nsxt) = Inr ()"
proof -
  have n: "path (vcdDetails demo_self) [Key ''NSXVProviderVDC'', Key ''ExternalNetwork''] = Inr (PStr ''ext'')"
    by (simp add: demo_defs)
  have g: "GetOrgVDCEdgeGateway (PStr ''sid'') \<in> set (snd (run demo_self rich_vcd demo_nsxt))"
    by (simp add: run_defs demo_defs)
  have p: "getOrgVDCEdgeGateway rich_vcd (PStr ''sid'') = Inr rich_payload"
    by (simp add: rich_vcd_def)
  have r: "RenameOrgVDC (PStr ''vdc'') (PStr ''tid'') \<in> set (snd (run demo_self rich_vcd demo_nsxt))"
    by (simp add: run_defs demo_defs)
  have a: "renameOrgVDC rich_vcd (PStr ''vdc'') (PStr ''tid'') = Inr ()"
    by (simp add: rich_vcd_def demo_vcd_def)
  have f: "path rich_payload [Key ''values'', Idx 0, Key ''edgeGatewayUplinks'']
     = Inr (PList [uplink_with ''other'' [subnet_with [PStr ''10.3.3.2-10.3.3.9'']],
                   uplink_with ''ext'' [subnet_with [PStr ''10.1.1.2-10.1.1.9''],
                                        subnet_with [PStr ''10.4.4.2-10.4.4.9'']],
                   uplink_with ''ext'' [subnet_with [PStr ''10.5.5.2-10.5.5.9'']]])"
    by (simp add: demo_defs)
  have m: "comprehension
     (PList [uplink_with ''other'' [subnet_with [PStr ''10.3.3.2-10.3.3.9'']],
             uplink_with ''ext'' [subnet_with [PStr ''10.1.1.2-10.1.1.9''],
                                  subnet_with [PStr ''10.4.4.2-10.4.4.9'']],
             uplink_with ''ext'' [subnet_with [PStr ''10.5.5.2-10.5.5.9'']]])
     (PStr ''ext'')
     = Inr [uplink_with ''ext'' [subnet_with [PStr ''10.1.1.2-10.1.1.9''],
                                 subnet_with [PStr ''10.4.4.2-10.4.4.9'']],
            uplink_with ''ext'' [subnet_with [PStr ''10.5.5.2-10.5.5.9'']]]"
    by (simp add: demo_defs py_eq_def)
  have s: "path (uplink_with ''ext'' [subnet_with [PStr ''10.1.1.2-10.1.1.9''],
                              subnet_with [PStr ''10.4.4.2-10.4.4.9'']])
     [Key ''subnets'', Key ''values'', Idx 0, Key ''ipRanges'', Key ''values'']
     = Inr (PList [PStr ''10.1.1.2-10.1.1.9''])"
    by (simp add: demo_defs)
  have s': "[uplink_with ''ext'' [subnet_with [PStr ''10.1.1.2-10.1.1.9''],
                                 subnet_with [PStr ''10.4.4.2-10.4.4.9'']],
            uplink_with ''ext'' [subnet_with [PStr ''10.5.5.2-10.5.5.9'']]] = [] \<or>
            path (hd [uplink_with ''ext'' [subnet_with [PStr ''10.1.1.2-10.1.1.9''],
                                 subnet_with [PStr ''10.4.4.2-10.4.4.9'']],
            uplink_with ''ext'' [subnet_with [PStr ''10.5.5.2-10.5.5.9'']]])
              [Key ''subnets'', Key ''values'', Idx 0, Key ''ipRanges'', Key ''values'']
              = Inr (PList [PStr ''10.1.1.2-10.1.1.9''])"
    using s by simp
  have d: "updateSourceExternalNetwork rich_vcd (PStr ''ext'') (PList [PStr ''10.1.1.2-10.1.1.9'']) = Inr ()"
          "deleteSession rich_vcd = Inr ()"
    by (simp_all add: rich_vcd_def demo_vcd_def)
  from update_call_follows_first_match [OF n g p f m s'] r a d
  have "filter is_update (snd (run demo_self rich_vcd demo_nsxt)) =
          [UpdateSourceExternalNetwork (PStr ''ext'') (PList [PStr ''10.1.1.2-10.1.1.9''])] \<and>
        fst (run demo_self rich_vcd demo_nsxt) = Inr ()"
    by auto
  with n g p r a f m s show ?thesis by blast
qed

text \<open>
  C5 as stated fails. In \<open>second_gateway_payload\<close> the name \<open>ext\<close> matches an uplink,
  the one of the second gateway, and the subnet of that uplink has IP ranges; yet the
  run, which succeeds, never calls \<open>updateSourceExternalNetwork\<close>: line 137 looks at
  the uplinks of the first gateway only.
\<close>

theorem update_for_later_gateway_counterexample:
  "getOrgVDCEdgeGateway second_gateway_vcd (PStr ''sid'') = Inr second_gateway_payload \<and>
   path second_gateway_payload
     [Key ''values'', Idx 1, Key ''edgeGatewayUplinks'', Idx 0, Key ''uplinkName''] = Inr (PStr ''ext'') \<and>
   path second_gateway_payload
     [Key ''values'', Idx 1, Key ''edgeGatewayUplinks'', Idx 0,
      Key ''subnets'', Key ''values'', Idx 0, Key ''ipRanges'', Key ''values'']
     = Inr (PList [PStr ''10.2.2.2-10.2.2.9'']) \<and>
   run demo_self second_gateway_vcd demo_nsxt = (Inr (), demo_calls @ [DeleteSession]) \<and>
   filter is_update (demo_calls @ [DeleteSession]) = []"
  by (simp add: run_defs demo_defs)

subsection \<open>C7: every error reaches the caller as it was raised\<close>

text \<open>
  C7. In every run, whatever the configuration and the answers of the two clients:

  A call of \<open>run\<close> that is answered with an exception \<open>e\<close> is the last call of \<open>run\<close>,
  and \<open>run\<close> fails with \<open>e\<close> itself; so nothing is called after a failure, neither to
  recover from it nor to undo what the earlier calls did, and the exception is neither
  wrapped nor replaced. Every call before the last was answered without an exception.

  When \<open>run\<close> fails with \<open>e\<close>, then \<open>e\<close> is the exception of its last call; or no call
  was answered with an exception and \<open>e\<close> is the first exception that a lookup in the
  configuration raises, and nothing has been changed remotely; or no call was answered
  with an exception, no lookup in the configuration raises, the last call is the
  renaming of the target container, and \<open>e\<close> is the first exception that a subscript
  or the comprehension of lines 137 and 139 raises on the captured payload.

  When \<open>run\<close> succeeds, nothing has raised: no lookup in the configuration, no call,
  and no subscript and no comprehension of lines 137 and 139 on the captured payload;
  and the last call is the logout.
\<close>

theorem errors_propagate_unchanged:
  "(\<forall>c\<in>set (snd (run self vcdObj nsxtObj)). \<forall>e.
      answer vcdObj nsxtObj c = Some e \<longrightarrow>
        fst (run self vcdObj nsxtObj) = Inl e \<and> last (snd (run self vcdObj nsxtObj)) = c) \<and>
   (\<forall>c\<in>set (butlast (snd (run self vcdObj nsxtObj))). answer vcdObj nsxtObj c = None) \<and>
   (\<forall>e. fst (run self vcdObj nsxtObj) = Inl e \<longrightarrow>
      (snd (run self vcdObj nsxtObj) \<noteq> [] \<and>
       answer vcdObj nsxtObj (last (snd (run self vcdObj nsxtObj))) = Some e) \<or>
      (first_raised (configuration_lookups self) = Some e \<and>
       (\<forall>c\<in>set (snd (run self vcdObj nsxtObj)). answer vcdObj nsxtObj c = None) \<and>
       filter is_mutation (snd (run self vcdObj nsxtObj)) = []) \<or>
      (first_raised (configuration_lookups self) = None \<and>
       (\<forall>c\<in>set (snd (run self vcdObj nsxtObj)). answer vcdObj nsxtObj c = None) \<and>
       (\<exists>sid payload name nm tid.
          GetOrgVDCEdgeGateway sid \<in> set (snd (run self vcdObj nsxtObj)) \<and>
          getOrgVDCEdgeGateway vcdObj sid = Inr payload \<and>
          path (vcdDetails self) [Key ''NSXVProviderVDC'', Key ''ExternalNetwork''] = Inr name \<and>
          RenameOrgVDC nm tid \<in> set (snd (run self vcdObj nsxtObj)) \<and>
          renameOrgVDC vcdObj nm tid = Inr () \<and>
          last (snd (run self vcdObj nsxtObj)) = RenameOrgVDC nm tid \<and>
          updateSourceExternalNetworkIpPools vcdObj payload name = (Inl e, []) \<and>
          first_raised (payload_lookups payload name) = Some e))) \<and>
   (fst (run self vcdObj nsxtObj) = Inr () \<longrightarrow>
      first_raised (configuration_lookups self) = None \<and>
      (\<forall>c\<in>set (snd (run self vcdObj nsxtObj)). answer vcdObj nsxtObj c = None) \<and>
      last (snd (run self vcdObj nsxtObj)) = DeleteSession \<and>
      (\<exists>sid payload name.
         GetOrgVDCEdgeGateway sid \<in> set (snd (run self vcdObj nsxtObj)) \<and>
         getOrgVDCEdgeGateway vcdObj sid = Inr payload \<and>
         path (vcdDetails self) [Key ''NSXVProviderVDC'', Key ''ExternalNetwork''] = Inr name \<and>
         fst (updateSourceExternalNetworkIpPools vcdObj payload name) = Inr () \<and>
         first_raised (payload_lookups payload name) = None))"
proof -
  have p: "propagates vcdObj nsxtObj (run self vcdObj nsxtObj)"
    unfolding run_is_body by (rule propagates_run_body)
  obtain r cs where rc: "run self vcdObj nsxtObj = (r, cs)"
    by (cases "run self vcdObj nsxtObj")
  have b: "\<forall>c\<in>set (butlast cs). answer vcdObj nsxtObj c = None"
    using p rc by (cases r) (auto simp: propagates_def dest: in_set_butlastD)
  have a: "\<forall>c\<in>set cs. \<forall>e. answer vcdObj nsxtObj c = Some e \<longrightarrow> r = Inl e \<and> last cs = c"
  proof (intro ballI allI impI)
    fix c e
    assume c: "c \<in> set cs" and e: "answer vcdObj nsxtObj c = Some e"
    with b have "c \<notin> set (butlast cs)" by auto
    with c have lc: "c = last cs" by (rule last_if_not_butlast)
    from p rc c e lc show "r = Inl e \<and> last cs = c"
      by (cases r) (auto simp: propagates_def)
  qed
  from a b have ab:
    "(\<forall>c\<in>set (snd (run self vcdObj nsxtObj)). \<forall>e.
      answer vcdObj nsxtObj c = Some e \<longrightarrow>
        fst (run self vcdObj nsxtObj) = Inl e \<and> last (snd (run self vcdObj nsxtObj)) = c) \<and>
     (\<forall>c\<in>set (butlast (snd (run self vcdObj nsxtObj))). answer vcdObj nsxtObj c = None)"
    unfolding rc by simp
  from ab failure_cases [of self vcdObj nsxtObj] success_cases [of self vcdObj nsxtObj]
  show ?thesis by (intro conjI allI impI) blast+
qed

text \<open>
  In the sample configuration, with a platform that refuses to delete the source
  container: \<open>run\<close> fails with the error of \<open>deleteOrgVDC\<close>, which is its last call.
  With a payload in which an uplink has no name: \<open>run\<close> fails with the \<open>KeyError\<close> of
  line 137, after the renaming of the target container.
\<close>

theorem errors_propagate_unchanged_witness:
  "DeleteOrgVDC (PStr ''sid'') \<in> set (snd (run demo_self failing_delete_vcd demo_nsxt)) \<and>
   answer failing_delete_vcd demo_nsxt (DeleteOrgVDC (PStr ''sid''))
     = Some (Exn OperationError ''container in use'') \<and>
   fst (run demo_self failing_delete_vcd demo_nsxt) = Inl (Exn OperationError ''container in use'') \<and>
   last (snd (run demo_self failing_delete_vcd demo_nsxt)) = DeleteOrgVDC (PStr ''sid'') \<and>
   updateSourceExternalNetworkIpPools unnamed_uplink_vcd unnamed_uplink_payload (PStr ''ext'')
     = (Inl (Exn KeyError ''uplinkName''), []) \<and>
   first_raised (payload_lookups unnamed_uplink_payload (PStr ''ext''))
     = Some (Exn KeyError ''uplinkName'') \<and>
   run demo_self unnamed_uplink_vcd demo_nsxt = (Inl (Exn KeyError ''uplinkName''), demo_calls) \<and>
   set (map (answer unnamed_uplink_vcd demo_nsxt) demo_calls) = {None} \<and>
   first_raised (configuration_lookups demo_self) = None \<and>
   last demo_calls = RenameOrgVDC (PStr ''vdc'') (PStr ''tid'')"
proof -
  have c: "DeleteOrgVDC (PStr ''sid'') \<in> set (snd (run demo_self failing_delete_vcd demo_nsxt))"
    by (simp add: run_defs demo_defs)
  have a: "answer failing_delete_vcd demo_nsxt (DeleteOrgVDC (PStr ''sid''))
             = Some (Exn OperationError ''container in use'')"
    by (simp add: raised_def demo_defs)
  from errors_propagate_unchanged [of demo_self failing_delete_vcd demo_nsxt] c a
  have f: "fst (run demo_self failing_delete_vcd demo_nsxt) = Inl (Exn OperationError ''container in use'') \<and>
           last (snd (run demo_self failing_delete_vcd demo_nsxt)) = DeleteOrgVDC (PStr ''sid'')"
    by blast
  have u: "updateSourceExternalNetworkIpPools unnamed_uplink_vcd unnamed_uplink_payload (PStr ''ext'')
             = (Inl (Exn KeyError ''uplinkName''), [])"
    by (simp add: run_defs demo_defs)
  have k: "first_raised (payload_lookups unnamed_uplink_payload (PStr ''ext''))
             = Some (Exn KeyError ''uplinkName'')"
    by (simp add: payload_lookups_def outcome_def py_eq_def demo_defs)
  have r: "run demo_self unnamed_uplink_vcd demo_nsxt = (Inl (Exn KeyError ''uplinkName''), demo_calls)"
    by (simp add: run_defs demo_defs)
  have q: "set (map (answer unnamed_uplink_vcd demo_nsxt) demo_calls) = {None}"
    by (simp add: raised_def run_defs demo_defs)
  have l: "first_raised (configuration_lookups demo_self) = None"
    by (simp add: configuration_lookups_def outcome_def clientArguments_def demo_defs)
  have t: "last demo_calls = RenameOrgVDC (PStr ''vdc'') (PStr ''tid'')"
    by (simp add: demo_calls_def)
  from c a f u k r q l t show ?thesis by simp
qed

end
